theory Spec2Isabelle
  imports Main
begin

section \<open>The MySQL test fixture of \<^verbatim>\<open>pkg/testfixtures/storage/mysql.go\<close>\<close>

text \<open>
  The fixture is one effectful Go function, \<^verbatim>\<open>RunMySQLTestContainer\<close>, with a
  constructor and a getter. Its effects are calls into the Docker client, the SQL driver,
  the back-off library, the migration runner and the test handle \<^verbatim>\<open>t\<close>. The
  embedding threads an explicit \<open>world\<close> through the calls: every external call is
  appended to a call log (\<open>trace\<close>) with its arguments, and its answer is read from an
  environment \<open>env\<close> that is a parameter of the whole development, so that a theorem
  quantified over \<open>env\<close> holds for every behaviour of the daemon, the driver and the
  database. \<^verbatim>\<open>t.FailNow\<close> (through \<^verbatim>\<open>t.Fatalf\<close> and \<^verbatim>\<open>require.NoError\<close>)
  ends the calling goroutine; it is the result \<open>Goexit\<close>. A nil dereference is the
  result \<open>Panicked\<close>.
\<close>

subsection \<open>Values\<close>

text \<open>A Go \<^verbatim>\<open>error\<close>; \<^verbatim>\<open>client.IsErrNotFound\<close> tells the two kinds apart.\<close>

datatype error = ErrNotFound | ErrOther

definition IsErrNotFound :: "error \<Rightarrow> bool" where
  "IsErrNotFound err = (err = ErrNotFound)"

text \<open>\<^verbatim>\<open>time.Duration\<close> counts nanoseconds.\<close>

type_synonym Duration = int

definition Second :: Duration where
  "Second = 1000000000"

definition Minute :: Duration where
  "Minute = 60 * Second"

record PortBinding =
  HostIP :: string
  HostPort :: string

text \<open>
  \<^verbatim>\<open>container.Config\<close>: the fields the source sets, and of those its literal leaves at
  their zero value the container's own stop timeout (\<^verbatim>\<open>StopTimeout *int\<close>, in seconds).
\<close>

record container_Config =
  Env :: "string list"
  ExposedPorts :: "string set"
  Image_cfg :: string
  StopTimeout :: "int option"

record container_HostConfig =
  AutoRemove :: bool
  PublishAllPorts :: bool
  PortBindings :: "string \<rightharpoonup> PortBinding list"

record NetworkSettings =
  Ports :: "string \<rightharpoonup> PortBinding list"

text \<open>\<^verbatim>\<open>types.ContainerJSON\<close> holds a pointer to its network settings, which may be nil.\<close>

record ContainerJSON =
  NetworkSettings :: "NetworkSettings option"

text \<open>A \<^verbatim>\<open>*sql.DB\<close> handle remembers the driver name and the data source name.\<close>

datatype sql_DB = DB string string

record mySQLTestContainer =
  conn :: "sql_DB option"
  addr :: string
  creds :: string

text \<open>
  \<^verbatim>\<open>backoff.ExponentialBackOff\<close>: of its fields the fixture touches
  \<^verbatim>\<open>MaxElapsedTime\<close> only.
\<close>

record ExponentialBackOff =
  MaxElapsedTime :: Duration

text \<open>A pointer to a \<open>mySQLTestContainer\<close>: nil, or an address of the store.\<close>

type_synonym ptr = "nat option"

text \<open>
  The two closures the fixture hands to the runtime, with the container id they capture:
  the function given to \<^verbatim>\<open>t.Cleanup\<close>, and the goroutine started with \<^verbatim>\<open>go\<close>.
  An \<open>event\<close> is one entry of the call log: the call and its arguments.
\<close>

datatype closure = cleanup_func string | go_func string

datatype event =
    E_NewClientWithOpts
  | E_ImagePull string
  | E_Copy
  | E_NewString
  | E_ContainerCreate container_Config container_HostConfig string
  | E_ContainerStart string
  | E_ContainerStop string "Duration option"
  | E_ContainerInspect string
  | E_go closure
  | E_Sleep Duration
  | E_Cleanup closure
  | E_Open string string
  | E_Ping sql_DB
  | E_SetLogger
  | E_SetDialect string
  | E_SetBaseFS
  | E_Up sql_DB string
  | E_Fatalf string
  | E_NoError string

subsection \<open>The environment and the world\<close>

text \<open>
  The environment fixes what lies outside this file: the package constant
  \<^verbatim>\<open>expireTimeout\<close> and the embedded migration assets (declared elsewhere in the
  repository), and the answer of every external call. Calls that one run may repeat
  (\<^verbatim>\<open>ContainerStop\<close>, \<^verbatim>\<open>sql.Open\<close>, \<^verbatim>\<open>Ping\<close>) are answered by their
  number. \<open>retries\<close> is the number of times the back-off policy answers a failed attempt
  with a further interval before it answers \<^verbatim>\<open>Stop\<close>; it depends on the policy and
  on wall-clock timing.
\<close>

record env =
  expireTimeout :: Duration
  MySQLMigrationDir :: string
  EmbedMigrations :: "string \<Rightarrow> int list"
  NewClientWithOpts_err :: "error option"
  ImagePull_err :: "error option"
  Copy_err :: "error option"
  NewString_res :: "error + string"
  ContainerCreate_res :: "error + string"
  ContainerStart_err :: "error option"
  ContainerInspect_res :: "error + ContainerJSON"
  ContainerStop_err :: "nat \<Rightarrow> error option"
  Open_err :: "nat \<Rightarrow> error option"
  Ping_err :: "nat \<Rightarrow> error option"
  retries :: "ExponentialBackOff \<Rightarrow> nat"
  SetDialect_err :: "error option"
  script_err :: "int \<Rightarrow> error option"

text \<open>
  The world: the store of fixture instances (a pointer is an index into it), the call log,
  the state of the test handle (\<open>failed\<close>, the registered cleanups), the goroutines
  started, the counters of the repeated calls, and the versions recorded as applied in the
  database of the container, in the order they were applied.
\<close>

record world =
  heap :: "mySQLTestContainer list"
  trace :: "event list"
  failed :: bool
  cleanups :: "closure list"
  goroutines :: "closure list"
  stops :: nat
  opens :: nat
  pings :: nat
  applied :: "int list"

datatype 'a result = Return 'a | Goexit | Panicked

type_synonym 'a prog = "world \<Rightarrow> 'a result \<times> world"

definition ret :: "'a \<Rightarrow> 'a prog" where
  "ret a w = (Return a, w)"

definition andThen :: "'a prog \<Rightarrow> ('a \<Rightarrow> 'b prog) \<Rightarrow> 'b prog" where
  "andThen m f w =
     (case m w of
        (Return a, w') \<Rightarrow> f a w'
      | (Goexit, w') \<Rightarrow> (Goexit, w')
      | (Panicked, w') \<Rightarrow> (Panicked, w'))"

definition call :: "event \<Rightarrow> world \<Rightarrow> world" where
  "call ev w = w\<lparr>trace := trace w @ [ev]\<rparr>"

definition panic :: "'a prog" where
  "panic w = (Panicked, w)"

subsection \<open>The test handle\<close>

definition FailNow :: "'a prog" where
  "FailNow w = (Goexit, w\<lparr>failed := True\<rparr>)"

definition Fatalf :: "string \<Rightarrow> 'a prog" where
  "Fatalf format w = FailNow (call (E_Fatalf format) w)"

definition require_NoError :: "error option \<Rightarrow> string \<Rightarrow> unit prog" where
  "require_NoError err msg w =
     (case err of
        None \<Rightarrow> (Return (), w)
      | Some x \<Rightarrow> FailNow (call (E_NoError msg) w))"

definition t_Cleanup :: "closure \<Rightarrow> unit prog" where
  "t_Cleanup f w = (Return (), (call (E_Cleanup f) w)\<lparr>cleanups := cleanups w @ [f]\<rparr>)"

definition go_stmt :: "closure \<Rightarrow> unit prog" where
  "go_stmt f w = (Return (), (call (E_go f) w)\<lparr>goroutines := goroutines w @ [f]\<rparr>)"

subsection \<open>Formatting\<close>

text \<open>
  \<^verbatim>\<open>fmt.Sprintf\<close> for the verb \<^verbatim>\<open>%s\<close> with string operands: each \<^verbatim>\<open>%s\<close>
  is replaced by the next operand (which is not scanned again); a verb with no operand
  left prints \<^verbatim>\<open>%!s(MISSING)\<close>. Other verbs and surplus operands do not occur in
  this file and are not modelled.
\<close>

fun Sprintf :: "string \<Rightarrow> string list \<Rightarrow> string" where
  "Sprintf [] args = []"
| "Sprintf [c] args = [c]"
| "Sprintf (c # d # fmt) args =
     (if c = CHR ''%'' \<and> d = CHR ''s'' then
        (case args of
           [] \<Rightarrow> ''%!s(MISSING)'' @ Sprintf fmt []
         | a # rest \<Rightarrow> a @ Sprintf fmt rest)
      else c # Sprintf (d # fmt) args)"

subsection \<open>The store of fixture instances\<close>

text \<open>\<^verbatim>\<open>&mySQLTestContainer{...}\<close> allocates at a fresh address.\<close>

definition new :: "mySQLTestContainer \<Rightarrow> ptr prog" where
  "new v w = (Return (Some (length (heap w))), w\<lparr>heap := heap w @ [v]\<rparr>)"

definition load :: "ptr \<Rightarrow> mySQLTestContainer prog" where
  "load p w =
     (case p of
        None \<Rightarrow> panic w
      | Some a \<Rightarrow> if a < length (heap w) then (Return (heap w ! a), w) else panic w)"

definition store_conn :: "ptr \<Rightarrow> sql_DB option \<Rightarrow> unit prog" where
  "store_conn p db w =
     (case p of
        None \<Rightarrow> panic w
      | Some a \<Rightarrow>
          if a < length (heap w)
          then (Return (), w\<lparr>heap := (heap w)[a := (heap w ! a)\<lparr>conn := db\<rparr>]\<rparr>)
          else panic w)"

subsection \<open>The external calls\<close>

text \<open>
  Each call logs itself and returns the answer of the environment. A call that returns a
  value and an error returns the zero value with the error.
\<close>

definition client_NewClientWithOpts :: "env \<Rightarrow> error option prog" where
  "client_NewClientWithOpts e w = (Return (NewClientWithOpts_err e), call E_NewClientWithOpts w)"

definition ImagePull :: "env \<Rightarrow> string \<Rightarrow> error option prog" where
  "ImagePull e refStr w = (Return (ImagePull_err e), call (E_ImagePull refStr) w)"

definition io_Copy :: "env \<Rightarrow> error option prog" where
  "io_Copy e w = (Return (Copy_err e), call E_Copy w)"

definition id_NewString :: "env \<Rightarrow> (string \<times> error option) prog" where
  "id_NewString e w =
     (Return (case NewString_res e of Inl x \<Rightarrow> ([], Some x) | Inr s \<Rightarrow> (s, None)),
      call E_NewString w)"

definition ContainerCreate ::
  "env \<Rightarrow> container_Config \<Rightarrow> container_HostConfig \<Rightarrow> string \<Rightarrow> (string \<times> error option) prog" where
  "ContainerCreate e config hostConfig containerName w =
     (Return (case ContainerCreate_res e of Inl x \<Rightarrow> ([], Some x) | Inr i \<Rightarrow> (i, None)),
      call (E_ContainerCreate config hostConfig containerName) w)"

definition ContainerStart :: "env \<Rightarrow> string \<Rightarrow> error option prog" where
  "ContainerStart e containerID w =
     (Return (ContainerStart_err e), call (E_ContainerStart containerID) w)"

definition ContainerStop :: "env \<Rightarrow> string \<Rightarrow> Duration option \<Rightarrow> error option prog" where
  "ContainerStop e containerID timeout w =
     (Return (ContainerStop_err e (stops w)),
      (call (E_ContainerStop containerID timeout) w)\<lparr>stops := Suc (stops w)\<rparr>)"

definition ContainerInspect :: "env \<Rightarrow> string \<Rightarrow> (ContainerJSON \<times> error option) prog" where
  "ContainerInspect e containerID w =
     (Return (case ContainerInspect_res e of
                Inl x \<Rightarrow> (\<lparr>NetworkSettings = None\<rparr>, Some x)
              | Inr j \<Rightarrow> (j, None)),
      call (E_ContainerInspect containerID) w)"

definition time_Sleep :: "Duration \<Rightarrow> unit prog" where
  "time_Sleep d w = (Return (), call (E_Sleep d) w)"

definition sql_Open :: "env \<Rightarrow> string \<Rightarrow> string \<Rightarrow> (sql_DB option \<times> error option) prog" where
  "sql_Open e driverName dataSourceName w =
     (Return (case Open_err e (opens w) of
                Some x \<Rightarrow> (None, Some x)
              | None \<Rightarrow> (Some (DB driverName dataSourceName), None)),
      (call (E_Open driverName dataSourceName) w)\<lparr>opens := Suc (opens w)\<rparr>)"

definition Ping :: "env \<Rightarrow> sql_DB option \<Rightarrow> error option prog" where
  "Ping e db w =
     (case db of
        None \<Rightarrow> panic w
      | Some d \<Rightarrow> (Return (Ping_err e (pings w)), (call (E_Ping d) w)\<lparr>pings := Suc (pings w)\<rparr>))"

definition goose_SetLogger :: "unit prog" where
  "goose_SetLogger w = (Return (), call E_SetLogger w)"

definition goose_SetDialect :: "env \<Rightarrow> string \<Rightarrow> error option prog" where
  "goose_SetDialect e d w = (Return (SetDialect_err e), call (E_SetDialect d) w)"

definition goose_SetBaseFS :: "unit prog" where
  "goose_SetBaseFS w = (Return (), call E_SetBaseFS w)"

text \<open>
  \<^verbatim>\<open>backoff.NewExponentialBackOff\<close> returns the library's default policy, whose
  \<^verbatim>\<open>MaxElapsedTime\<close> is 15 minutes.
\<close>

definition NewExponentialBackOff :: ExponentialBackOff where
  "NewExponentialBackOff = \<lparr>MaxElapsedTime = 15 * Minute\<rparr>"

text \<open>
  \<^verbatim>\<open>backoff.Retry\<close> runs the operation; a nil error ends the loop with nil; otherwise
  the policy is asked for the next interval, and when it answers \<^verbatim>\<open>Stop\<close> the loop
  ends with the operation's error. The second argument is the number of failures the
  policy still answers with an interval. The waits between attempts are not logged.
\<close>

fun Retry :: "error option prog \<Rightarrow> nat \<Rightarrow> error option prog" where
  "Retry operation 0 = operation"
| "Retry operation (Suc n) =
     andThen operation (\<lambda>err.
       case err of
         None \<Rightarrow> ret None
       | Some x \<Rightarrow> Retry operation n)"

subsection \<open>The migration runner\<close>

text \<open>
  Modelled from the spec: \<^verbatim>\<open>goose.Up\<close> (the migration runner, a library that is not
  part of the source file). The spec says of it: "given an embedded directory of ordered
  migration scripts and a dialect name, applies all unapplied ones in order", "failing the
  test on any migration error". The scripts of a directory are identified by their
  version numbers; a script whose version is not recorded as applied is run, and recorded
  when it succeeds; the first script that fails ends the run with its error.
\<close>

fun apply_unapplied :: "env \<Rightarrow> int list \<Rightarrow> int list \<Rightarrow> error option \<times> int list" where
  "apply_unapplied e [] done = (None, done)"
| "apply_unapplied e (v # vs) done =
     (if v \<in> set done then apply_unapplied e vs done
      else (case script_err e v of
              Some x \<Rightarrow> (Some x, done)
            | None \<Rightarrow> apply_unapplied e vs (done @ [v])))"

definition goose_Up :: "env \<Rightarrow> sql_DB option \<Rightarrow> string \<Rightarrow> error option prog" where
  "goose_Up e db dir w =
     (case db of
        None \<Rightarrow> panic w
      | Some d \<Rightarrow>
          (case apply_unapplied e (sort (EmbedMigrations e dir)) (applied w) of
             (err, done) \<Rightarrow> (Return err, (call (E_Up d dir) w)\<lparr>applied := done\<rparr>)))"

subsection \<open>The fixture\<close>

definition mySQLImage :: string where
  "mySQLImage = ''mysql:latest''"

definition NewMySQLTestContainer :: "ptr prog" where
  "NewMySQLTestContainer = new \<lparr>conn = None, addr = [], creds = []\<rparr>"

text \<open>The closure \<^verbatim>\<open>stopContainer\<close>; it captures the client, the container and \<^verbatim>\<open>t\<close>.\<close>

definition stopContainer :: "env \<Rightarrow> string \<Rightarrow> unit prog" where
  "stopContainer e cont_ID =
     (let timeout = 5 * Second in
      andThen (ContainerStop e cont_ID (Some timeout)) (\<lambda>err.
        case err of
          None \<Rightarrow> ret ()
        | Some x \<Rightarrow>
            if \<not> IsErrNotFound x then Fatalf ''failed to stop mysql container: %v''
            else ret ()))"

text \<open>The body of the goroutine that expires the container.\<close>

definition expire :: "env \<Rightarrow> string \<Rightarrow> unit prog" where
  "expire e cont_ID =
     andThen (time_Sleep (expireTimeout e)) (\<lambda>_.
     andThen (ContainerStop e cont_ID None) (\<lambda>err.
       case err of
         None \<Rightarrow> ret ()
       | Some x \<Rightarrow>
           if \<not> IsErrNotFound x then Fatalf ''failed to expire mysql container: %v''
           else ret ()))"

text \<open>Running a closure: what the test runtime does at cleanup, or the scheduler for a goroutine.\<close>

fun run :: "env \<Rightarrow> closure \<Rightarrow> unit prog" where
  "run e (cleanup_func cont_ID) = stopContainer e cont_ID"
| "run e (go_func cont_ID) = expire e cont_ID"

text \<open>
  The operation retried by the back-off loop. The assignment
  \<^verbatim>\<open>mySQLTestContainer.conn, err = sql.Open(...)\<close> stores the handle before the error is
  looked at; the ping goes to the handle just stored.
\<close>

definition operation :: "env \<Rightarrow> ptr \<Rightarrow> string \<Rightarrow> error option prog" where
  "operation e mySQLTestContainer uri =
     andThen (sql_Open e ''mysql'' uri) (\<lambda>(db, err).
     andThen (store_conn mySQLTestContainer db) (\<lambda>_.
       case err of
         Some x \<Rightarrow> ret (Some x)
       | None \<Rightarrow>
           andThen (Ping e db) (\<lambda>err.
             case err of
               Some x \<Rightarrow> ret (Some x)
             | None \<Rightarrow> ret None)))"

definition RunMySQLTestContainer :: "env \<Rightarrow> ptr \<Rightarrow> ptr prog" where
  "RunMySQLTestContainer e m =
     andThen (client_NewClientWithOpts e) (\<lambda>err.
     andThen (require_NoError err []) (\<lambda>_.
     andThen (ImagePull e mySQLImage) (\<lambda>err.
     andThen (require_NoError err []) (\<lambda>_.
     andThen (io_Copy e) (\<lambda>err.
     andThen (require_NoError err []) (\<lambda>_.
     let containerCfg =
           \<lparr>Env = [''MYSQL_DATABASE=defaultdb'', ''MYSQL_ROOT_PASSWORD=secret''],
            ExposedPorts = {''3306/tcp''},
            Image_cfg = mySQLImage,
            StopTimeout = None\<rparr>;
         hostCfg =
           \<lparr>AutoRemove = True,
            PublishAllPorts = False,
            PortBindings = [''3306/tcp'' \<mapsto> [\<lparr>HostIP = [], HostPort = ''3306''\<rparr>]]\<rparr>
     in
     andThen (id_NewString e) (\<lambda>(ulid, err).
     andThen (require_NoError err []) (\<lambda>_.
     let name = Sprintf ''mysql-%s'' [ulid] in
     andThen (ContainerCreate e containerCfg hostCfg name) (\<lambda>(cont_ID, err).
     andThen (require_NoError err ''failed to create mysql docker container'') (\<lambda>_.
     andThen (ContainerStart e cont_ID) (\<lambda>err.
     andThen (case err of
                Some x \<Rightarrow>
                  andThen (stopContainer e cont_ID) (\<lambda>_.
                    Fatalf ''failed to start mysql container: %v'')
              | None \<Rightarrow> ret ()) (\<lambda>_.
     andThen (ContainerInspect e cont_ID) (\<lambda>(containerJSON, err).
     andThen (require_NoError err []) (\<lambda>_.
     andThen (case NetworkSettings containerJSON of
                None \<Rightarrow> panic
              | Some ns \<Rightarrow> ret (Ports ns ''3306/tcp'')) (\<lambda>found.
     let (p, ok) = (case found of None \<Rightarrow> ([], False) | Some bs \<Rightarrow> (bs, True)) in
     andThen (if \<not> ok \<or> length p = 0
              then Fatalf ''failed to get host port mapping from mysql container''
              else ret ()) (\<lambda>_.
     andThen (go_stmt (go_func cont_ID)) (\<lambda>_.
     andThen (t_Cleanup (cleanup_func cont_ID)) (\<lambda>_.
     andThen (new \<lparr>conn = None,
                   addr = Sprintf ''localhost:%s'' [HostPort (hd p)],
                   creds = ''root:secret''\<rparr>) (\<lambda>mySQLTestContainer.
     andThen (load mySQLTestContainer) (\<lambda>inst.
     let uri = Sprintf ''%s@tcp(%s)/defaultdb?parseTime=true'' [creds inst, addr inst];
         backoffPolicy = NewExponentialBackOff\<lparr>MaxElapsedTime := 60 * Second\<rparr>
     in
     andThen (Retry (operation e mySQLTestContainer uri) (retries e backoffPolicy)) (\<lambda>err.
     andThen (case err of
                Some x \<Rightarrow>
                  andThen (stopContainer e cont_ID) (\<lambda>_.
                    Fatalf ''failed to connect to mysql container: %v'')
              | None \<Rightarrow> ret ()) (\<lambda>_.
     andThen (sql_Open e ''mysql'' uri) (\<lambda>(db, err).
     andThen (require_NoError err []) (\<lambda>_.
     andThen goose_SetLogger (\<lambda>_.
     andThen (goose_SetDialect e ''mysql'') (\<lambda>err.
     andThen (require_NoError err []) (\<lambda>_.
     andThen goose_SetBaseFS (\<lambda>_.
     andThen (goose_Up e db (MySQLMigrationDir e)) (\<lambda>err.
     andThen (require_NoError err []) (\<lambda>_.
     ret mySQLTestContainer))))))))))))))))))))))))))))))"

definition GetConnectionURI :: "ptr \<Rightarrow> string prog" where
  "GetConnectionURI m =
     andThen (load m) (\<lambda>s.
       ret (Sprintf ''%s@tcp(%s)/%s?parseTime=true'' [creds s, addr s, ''defaultdb'']))"

section \<open>Observations on a run\<close>

text \<open>
  The values the run binds to \<^verbatim>\<open>ulid\<close>, \<^verbatim>\<open>cont.ID\<close> and \<^verbatim>\<open>p[0].HostPort\<close>,
  read off the environment; the calls of a run up to the start of the connection loop and
  after it; and how far the environment lets a run get.
\<close>

definition fatal_report :: "event \<Rightarrow> bool" where
  "fatal_report ev = (case ev of E_Fatalf format \<Rightarrow> True | E_NoError msg \<Rightarrow> True | _ \<Rightarrow> False)"

definition ulid_of :: "env \<Rightarrow> string" where
  "ulid_of e = (case NewString_res e of Inl x \<Rightarrow> [] | Inr s \<Rightarrow> s)"

definition cont_ID_of :: "env \<Rightarrow> string" where
  "cont_ID_of e = (case ContainerCreate_res e of Inl x \<Rightarrow> [] | Inr i \<Rightarrow> i)"

definition inspected_ports :: "env \<Rightarrow> PortBinding list option" where
  "inspected_ports e =
     (case ContainerInspect_res e of
        Inl x \<Rightarrow> None
      | Inr j \<Rightarrow> (case NetworkSettings j of None \<Rightarrow> None | Some ns \<Rightarrow> Ports ns ''3306/tcp''))"

definition hostPort_of :: "env \<Rightarrow> string" where
  "hostPort_of e = (case inspected_ports e of None \<Rightarrow> [] | Some p \<Rightarrow> HostPort (hd p))"

definition dsn :: "string \<Rightarrow> string" where
  "dsn hostPort = ''root:secret@tcp(localhost:'' @ hostPort @ '')/defaultdb?parseTime=true''"

definition setup_calls :: "env \<Rightarrow> event list" where
  "setup_calls e =
     [E_NewClientWithOpts, E_ImagePull ''mysql:latest'', E_Copy, E_NewString,
      E_ContainerCreate
        \<lparr>Env = [''MYSQL_DATABASE=defaultdb'', ''MYSQL_ROOT_PASSWORD=secret''],
         ExposedPorts = {''3306/tcp''},
         Image_cfg = ''mysql:latest'',
         StopTimeout = None\<rparr>
        \<lparr>AutoRemove = True,
         PublishAllPorts = False,
         PortBindings = [''3306/tcp'' \<mapsto> [\<lparr>HostIP = [], HostPort = ''3306''\<rparr>]]\<rparr>
        (''mysql-'' @ ulid_of e),
      E_ContainerStart (cont_ID_of e),
      E_ContainerInspect (cont_ID_of e),
      E_go (go_func (cont_ID_of e)),
      E_Cleanup (cleanup_func (cont_ID_of e))]"

definition migration_calls :: "env \<Rightarrow> event list" where
  "migration_calls e =
     [E_Open ''mysql'' (dsn (hostPort_of e)), E_SetLogger, E_SetDialect ''mysql'', E_SetBaseFS,
      E_Up (DB ''mysql'' (dsn (hostPort_of e))) (MySQLMigrationDir e)]"

text \<open>
  \<open>pulled\<close>: the client was made and the image pulled and its output read without
  error. \<open>created\<close>: moreover the name was drawn and the container created.
\<close>

definition pulled :: "env \<Rightarrow> bool" where
  "pulled e =
     (NewClientWithOpts_err e = None \<and> ImagePull_err e = None \<and> Copy_err e = None)"

definition created :: "env \<Rightarrow> bool" where
  "created e =
     (pulled e \<and> NewString_res e = Inr (ulid_of e) \<and>
      ContainerCreate_res e = Inr (cont_ID_of e))"

text \<open>
  Some \<^verbatim>\<open>ContainerCreate\<close> call of a log carries a configuration whose own stop
  timeout is the given number of seconds.
\<close>

definition created_with_stop_timeout :: "event list \<Rightarrow> int \<Rightarrow> bool" where
  "created_with_stop_timeout tr secs =
     list_ex
       (\<lambda>ev. case ev of
          E_ContainerCreate config hostConfig containerName \<Rightarrow> StopTimeout config = Some secs
        | _ \<Rightarrow> False)
       tr"

text \<open>
  \<open>started\<close>: every call up to and including the start of the container answers
  without error. \<open>discovered\<close>: moreover the inspection answers, with network settings
  that bind \<^verbatim>\<open>3306/tcp\<close> to a non-empty list.
\<close>

definition started :: "env \<Rightarrow> bool" where
  "started e =
     (NewClientWithOpts_err e = None \<and> ImagePull_err e = None \<and> Copy_err e = None \<and>
      NewString_res e = Inr (ulid_of e) \<and> ContainerCreate_res e = Inr (cont_ID_of e) \<and>
      ContainerStart_err e = None)"

definition discovered :: "env \<Rightarrow> bool" where
  "discovered e =
     (started e \<and> (case inspected_ports e of None \<Rightarrow> False | Some p \<Rightarrow> p \<noteq> []))"

text \<open>
  What \<^verbatim>\<open>backoff.Retry\<close> of the connection operation does to the world: the instance at
  address \<open>a\<close> gets the handle of the last attempt, the log grows by \<^verbatim>\<open>sql.Open\<close> and
  \<^verbatim>\<open>Ping\<close> calls on the data source name, and the loop ends with nil exactly when its
  last ping was answered nil.
\<close>

definition retry_post :: "env \<Rightarrow> nat \<Rightarrow> string \<Rightarrow> world \<Rightarrow> error option \<Rightarrow> world \<Rightarrow> bool" where
  "retry_post e a uri w err w' =
     (\<exists>c evs.
        w' = w\<lparr>heap := (heap w)[a := (heap w ! a)\<lparr>conn := c\<rparr>],
               trace := trace w @ evs, opens := opens w', pings := pings w'\<rparr> \<and>
        set evs \<subseteq> {E_Open ''mysql'' uri, E_Ping (DB ''mysql'' uri)} \<and> evs \<noteq> [] \<and>
        opens w < opens w' \<and> pings w \<le> pings w' \<and>
        (case err of
           None \<Rightarrow> c = Some (DB ''mysql'' uri) \<and> pings w < pings w' \<and>
             Ping_err e (pings w' - 1) = None \<and> last evs = E_Ping (DB ''mysql'' uri)
         | Some x \<Rightarrow> (\<forall>i. pings w \<le> i \<and> i < pings w' \<longrightarrow> Ping_err e i \<noteq> None)))"

text \<open>An instance with a connection handle, an address and credentials.\<close>

definition fully_initialized :: "mySQLTestContainer \<Rightarrow> bool" where
  "fully_initialized s = (conn s \<noteq> None \<and> addr s \<noteq> [] \<and> creds s \<noteq> [])"

subsection \<open>Example worlds and environments\<close>

definition world0 :: world where
  "world0 =
     \<lparr>heap = [], trace = [], failed = False, cleanups = [], goroutines = [],
      stops = 0, opens = 0, pings = 0, applied = []\<rparr>"

text \<open>
  Everything answers without error; the database answers the third ping; the first stop of
  the container succeeds and later ones find it gone; two migration scripts are embedded.
\<close>

definition env_ok :: env where
  "env_ok =
     \<lparr>expireTimeout = 10 * Minute,
      MySQLMigrationDir = ''migrations/mysql'',
      EmbedMigrations = (\<lambda>d. if d = ''migrations/mysql'' then [2, 1] else []),
      NewClientWithOpts_err = None,
      ImagePull_err = None,
      Copy_err = None,
      NewString_res = Inr ''01H'',
      ContainerCreate_res = Inr ''c1'',
      ContainerStart_err = None,
      ContainerInspect_res =
        Inr \<lparr>NetworkSettings =
               Some \<lparr>Ports = [''3306/tcp'' \<mapsto> [\<lparr>HostIP = ''0.0.0.0'', HostPort = ''3306''\<rparr>]]\<rparr>\<rparr>,
      ContainerStop_err = (\<lambda>n. if n = 0 then None else Some ErrNotFound),
      Open_err = (\<lambda>n. None),
      Ping_err = (\<lambda>n. if n < 2 then Some ErrOther else None),
      retries = (\<lambda>b. if MaxElapsedTime b = 60 * Second then 3 else 0),
      SetDialect_err = None,
      script_err = (\<lambda>v. None)\<rparr>"

text \<open>
  The world after the constructor has run in \<open>world0\<close>; environments in which no ping
  is ever answered, in which the inspection reports no port binding, and in which the
  second migration script fails; and the worlds in which the runs of these examples end.
\<close>

definition world1 :: world where
  "world1 = world0\<lparr>heap := [\<lparr>conn = None, addr = [], creds = []\<rparr>]\<rparr>"

definition env_noping :: env where
  "env_noping = env_ok\<lparr>Ping_err := (\<lambda>n. Some ErrOther)\<rparr>"

definition env_noport :: env where
  "env_noport =
     env_ok\<lparr>ContainerInspect_res := Inr \<lparr>NetworkSettings = Some \<lparr>Ports = Map.empty\<rparr>\<rparr>\<rparr>"

definition env_badscript :: env where
  "env_badscript = env_ok\<lparr>script_err := (\<lambda>v. if v = 2 then Some ErrOther else None)\<rparr>"

definition env_nopull :: env where
  "env_nopull = env_ok\<lparr>ImagePull_err := Some ErrOther\<rparr>"

definition world_nopull :: world where
  "world_nopull =
     world1\<lparr>trace := [E_NewClientWithOpts, E_ImagePull ''mysql:latest'', E_NoError []],
            failed := True\<rparr>"

definition uri_3306 :: string where
  "uri_3306 = ''root:secret@tcp(localhost:3306)/defaultdb?parseTime=true''"

definition calls_c1 :: "event list" where
  "calls_c1 =
     [E_NewClientWithOpts, E_ImagePull ''mysql:latest'', E_Copy, E_NewString,
      E_ContainerCreate
        \<lparr>Env = [''MYSQL_DATABASE=defaultdb'', ''MYSQL_ROOT_PASSWORD=secret''],
         ExposedPorts = {''3306/tcp''},
         Image_cfg = ''mysql:latest'',
         StopTimeout = None\<rparr>
        \<lparr>AutoRemove = True,
         PublishAllPorts = False,
         PortBindings = [''3306/tcp'' \<mapsto> [\<lparr>HostIP = [], HostPort = ''3306''\<rparr>]]\<rparr>
        ''mysql-01H'',
      E_ContainerStart ''c1'', E_ContainerInspect ''c1'']"

definition world_ok :: world where
  "world_ok =
     \<lparr>heap = [\<lparr>conn = None, addr = [], creds = []\<rparr>,
              \<lparr>conn = Some (DB ''mysql'' uri_3306), addr = ''localhost:3306'',
               creds = ''root:secret''\<rparr>],
      trace = calls_c1 @
        [E_go (go_func ''c1''), E_Cleanup (cleanup_func ''c1''),
         E_Open ''mysql'' uri_3306, E_Ping (DB ''mysql'' uri_3306),
         E_Open ''mysql'' uri_3306, E_Ping (DB ''mysql'' uri_3306),
         E_Open ''mysql'' uri_3306, E_Ping (DB ''mysql'' uri_3306),
         E_Open ''mysql'' uri_3306, E_SetLogger, E_SetDialect ''mysql'', E_SetBaseFS,
         E_Up (DB ''mysql'' uri_3306) ''migrations/mysql''],
      failed = False, cleanups = [cleanup_func ''c1''], goroutines = [go_func ''c1''],
      stops = 0, opens = 4, pings = 3, applied = [1, 2]\<rparr>"

definition world_noping :: world where
  "world_noping =
     \<lparr>heap = [\<lparr>conn = None, addr = [], creds = []\<rparr>,
              \<lparr>conn = Some (DB ''mysql'' uri_3306), addr = ''localhost:3306'',
               creds = ''root:secret''\<rparr>],
      trace = calls_c1 @
        [E_go (go_func ''c1''), E_Cleanup (cleanup_func ''c1''),
         E_Open ''mysql'' uri_3306, E_Ping (DB ''mysql'' uri_3306),
         E_Open ''mysql'' uri_3306, E_Ping (DB ''mysql'' uri_3306),
         E_Open ''mysql'' uri_3306, E_Ping (DB ''mysql'' uri_3306),
         E_Open ''mysql'' uri_3306, E_Ping (DB ''mysql'' uri_3306),
         E_ContainerStop ''c1'' (Some 5000000000),
         E_Fatalf ''failed to connect to mysql container: %v''],
      failed = True, cleanups = [cleanup_func ''c1''], goroutines = [go_func ''c1''],
      stops = 1, opens = 4, pings = 4, applied = []\<rparr>"

definition world_noport :: world where
  "world_noport =
     \<lparr>heap = [\<lparr>conn = None, addr = [], creds = []\<rparr>],
      trace = calls_c1 @ [E_Fatalf ''failed to get host port mapping from mysql container''],
      failed = True, cleanups = [], goroutines = [],
      stops = 0, opens = 0, pings = 0, applied = []\<rparr>"

definition world_badscript :: world where
  "world_badscript =
     \<lparr>heap = [\<lparr>conn = None, addr = [], creds = []\<rparr>,
              \<lparr>conn = Some (DB ''mysql'' uri_3306), addr = ''localhost:3306'',
               creds = ''root:secret''\<rparr>],
      trace = calls_c1 @
        [E_go (go_func ''c1''), E_Cleanup (cleanup_func ''c1''),
         E_Open ''mysql'' uri_3306, E_Ping (DB ''mysql'' uri_3306),
         E_Open ''mysql'' uri_3306, E_Ping (DB ''mysql'' uri_3306),
         E_Open ''mysql'' uri_3306, E_Ping (DB ''mysql'' uri_3306),
         E_Open ''mysql'' uri_3306, E_SetLogger, E_SetDialect ''mysql'', E_SetBaseFS,
         E_Up (DB ''mysql'' uri_3306) ''migrations/mysql'', E_NoError []],
      failed = True, cleanups = [cleanup_func ''c1''], goroutines = [go_func ''c1''],
      stops = 0, opens = 4, pings = 3, applied = [1]\<rparr>"

section \<open>Executing the model\<close>

lemmas prim_defs = andThen_def ret_def client_NewClientWithOpts_def require_NoError_def
   ImagePull_def io_Copy_def id_NewString_def ContainerCreate_def ContainerStart_def
   ContainerStop_def ContainerInspect_def go_stmt_def t_Cleanup_def new_def load_def panic_def
   sql_Open_def store_conn_def Ping_def call_def goose_SetLogger_def goose_SetDialect_def
   goose_SetBaseFS_def goose_Up_def FailNow_def Fatalf_def time_Sleep_def

lemma operation_run:
  assumes "a < length (heap w)"
  shows "operation e (Some a) uri w =
     (case Open_err e (opens w) of
        Some x \<Rightarrow> (Return (Some x),
           w\<lparr>heap := (heap w)[a := (heap w ! a)\<lparr>conn := None\<rparr>],
             trace := trace w @ [E_Open ''mysql'' uri], opens := Suc (opens w)\<rparr>)
      | None \<Rightarrow> (Return (Ping_err e (pings w)),
           w\<lparr>heap := (heap w)[a := (heap w ! a)\<lparr>conn := Some (DB ''mysql'' uri)\<rparr>],
             trace := trace w @ [E_Open ''mysql'' uri, E_Ping (DB ''mysql'' uri)],
             opens := Suc (opens w), pings := Suc (pings w)\<rparr>))"
  using assms by (auto simp: operation_def prim_defs split: option.splits)

lemma operation_post:
  assumes "a < length (heap w)"
  shows "\<exists>err w'. operation e (Some a) uri w = (Return err, w') \<and> retry_post e a uri w err w'
            \<and> length (heap w') = length (heap w)"
proof (cases "Open_err e (opens w)")
  case None
  let ?w' = "w\<lparr>heap := (heap w)[a := (heap w ! a)\<lparr>conn := Some (DB ''mysql'' uri)\<rparr>],
             trace := trace w @ [E_Open ''mysql'' uri, E_Ping (DB ''mysql'' uri)],
             opens := Suc (opens w), pings := Suc (pings w)\<rparr>"
  have run: "operation e (Some a) uri w = (Return (Ping_err e (pings w)), ?w')"
    by (simp add: operation_run [OF assms] None)
  have "retry_post e a uri w (Ping_err e (pings w)) ?w'"
    unfolding retry_post_def
    apply (rule exI [of _ "Some (DB ''mysql'' uri)"])
    apply (rule exI [of _ "[E_Open ''mysql'' uri, E_Ping (DB ''mysql'' uri)]"])
    apply (cases "Ping_err e (pings w)")
     apply (auto simp: less_Suc_eq_le)
    done
  with run show ?thesis by simp
next
  case (Some x)
  let ?w' = "w\<lparr>heap := (heap w)[a := (heap w ! a)\<lparr>conn := None\<rparr>],
             trace := trace w @ [E_Open ''mysql'' uri], opens := Suc (opens w)\<rparr>"
  have run: "operation e (Some a) uri w = (Return (Some x), ?w')"
    by (simp add: operation_run [OF assms] Some)
  have "retry_post e a uri w (Some x) ?w'"
    unfolding retry_post_def
    apply (rule exI [of _ None])
    apply (rule exI [of _ "[E_Open ''mysql'' uri]"])
    apply auto
    done
  with run show ?thesis by simp
qed

lemma retry_post_trans:
  assumes "retry_post e a uri w (Some x) w1" and "retry_post e a uri w1 err w'"
    and "a < length (heap w)"
  shows "retry_post e a uri w err w'"
proof -
  from assms(1) obtain c1 evs1 where
    w1: "w1 = w\<lparr>heap := (heap w)[a := (heap w ! a)\<lparr>conn := c1\<rparr>],
               trace := trace w @ evs1, opens := opens w1, pings := pings w1\<rparr>"
    and e1: "set evs1 \<subseteq> {E_Open ''mysql'' uri, E_Ping (DB ''mysql'' uri)}" "evs1 \<noteq> []"
    and o1: "opens w < opens w1" and p1: "pings w \<le> pings w1"
    and f1: "\<forall>i. pings w \<le> i \<and> i < pings w1 \<longrightarrow> Ping_err e i \<noteq> None"
    unfolding retry_post_def by auto
  from assms(2) obtain c2 evs2 where
    w2: "w' = w1\<lparr>heap := (heap w1)[a := (heap w1 ! a)\<lparr>conn := c2\<rparr>],
               trace := trace w1 @ evs2, opens := opens w', pings := pings w'\<rparr>"
    and e2: "set evs2 \<subseteq> {E_Open ''mysql'' uri, E_Ping (DB ''mysql'' uri)}" "evs2 \<noteq> []"
    and o2: "opens w1 < opens w'" and p2: "pings w1 \<le> pings w'"
    and f2: "(case err of
           None \<Rightarrow> c2 = Some (DB ''mysql'' uri) \<and> pings w1 < pings w' \<and>
             Ping_err e (pings w' - 1) = None \<and> last evs2 = E_Ping (DB ''mysql'' uri)
         | Some x \<Rightarrow> (\<forall>i. pings w1 \<le> i \<and> i < pings w' \<longrightarrow> Ping_err e i \<noteq> None))"
    unfolding retry_post_def by auto
  have h1: "heap w1 = (heap w)[a := (heap w ! a)\<lparr>conn := c1\<rparr>]"
    and t1: "trace w1 = trace w @ evs1"
    by (subst w1, simp)+
  have eq: "w' = w\<lparr>heap := (heap w)[a := (heap w ! a)\<lparr>conn := c2\<rparr>],
               trace := trace w @ (evs1 @ evs2), opens := opens w', pings := pings w'\<rparr>"
    apply (subst w2)
    apply (simp only: h1 t1)
    apply (subst w1)
    using assms(3) by simp
  have f: "(case err of
           None \<Rightarrow> c2 = Some (DB ''mysql'' uri) \<and> pings w < pings w' \<and>
             Ping_err e (pings w' - 1) = None \<and> last (evs1 @ evs2) = E_Ping (DB ''mysql'' uri)
         | Some x \<Rightarrow> (\<forall>i. pings w \<le> i \<and> i < pings w' \<longrightarrow> Ping_err e i \<noteq> None))"
    using f1 f2 p1 p2 e2 by (cases err) (auto simp: not_less [symmetric])
  show ?thesis
    unfolding retry_post_def
    apply (rule exI [of _ c2], rule exI [of _ "evs1 @ evs2"])
    using eq e1 e2 o1 o2 p1 p2 f by auto
qed

lemma Retry_operation:
  assumes "a < length (heap w)"
  shows "\<exists>err w'. Retry (operation e (Some a) uri) n w = (Return err, w') \<and>
           retry_post e a uri w err w'"
  using assms
proof (induction n arbitrary: w)
  case 0
  then show ?case using operation_post [of a w e uri] by auto
next
  case (Suc n)
  from operation_post [OF Suc.prems, of e uri] obtain err1 w1 where
    op: "operation e (Some a) uri w = (Return err1, w1)"
    and post1: "retry_post e a uri w err1 w1" and len: "length (heap w1) = length (heap w)"
    by blast
  show ?case
  proof (cases err1)
    case None
    then show ?thesis using op post1 by (simp add: andThen_def ret_def)
  next
    case (Some x)
    from len Suc.prems have "a < length (heap w1)" by simp
    from Suc.IH [OF this] obtain err w' where
      r: "Retry (operation e (Some a) uri) n w1 = (Return err, w')"
      and post2: "retry_post e a uri w1 err w'" by blast
    have "retry_post e a uri w err w'"
      using retry_post_trans [OF _ post2 Suc.prems] post1 Some by simp
    then show ?thesis using op Some r by (simp add: andThen_def)
  qed
qed


lemma RetryD:
  assumes "Retry (operation e (Some a) uri) n w = (r, w')" and "a < length (heap w)"
  shows "\<exists>err c evs k l. r = Return err \<and>
        w' = w\<lparr>heap := (heap w)[a := (heap w ! a)\<lparr>conn := c\<rparr>],
               trace := trace w @ evs, opens := k, pings := l\<rparr> \<and>
        set evs \<subseteq> {E_Open ''mysql'' uri, E_Ping (DB ''mysql'' uri)} \<and> evs \<noteq> [] \<and>
        opens w < k \<and> pings w \<le> l \<and>
        (case err of
           None \<Rightarrow> c = Some (DB ''mysql'' uri) \<and> pings w < l \<and>
             Ping_err e (l - 1) = None \<and> last evs = E_Ping (DB ''mysql'' uri)
         | Some x \<Rightarrow> (\<forall>i. pings w \<le> i \<and> i < l \<longrightarrow> Ping_err e i \<noteq> None))"
proof -
  from Retry_operation [OF assms(2), of e uri n] assms(1)
  obtain err where r: "r = Return err" and post: "retry_post e a uri w err w'" by auto
  from post obtain c evs where
    "w' = w\<lparr>heap := (heap w)[a := (heap w ! a)\<lparr>conn := c\<rparr>],
               trace := trace w @ evs, opens := opens w', pings := pings w'\<rparr>"
    "set evs \<subseteq> {E_Open ''mysql'' uri, E_Ping (DB ''mysql'' uri)}" "evs \<noteq> []"
    "opens w < opens w'" "pings w \<le> pings w'"
    "(case err of
           None \<Rightarrow> c = Some (DB ''mysql'' uri) \<and> pings w < pings w' \<and>
             Ping_err e (pings w' - 1) = None \<and> last evs = E_Ping (DB ''mysql'' uri)
         | Some x \<Rightarrow> (\<forall>i. pings w \<le> i \<and> i < pings w' \<longrightarrow> Ping_err e i \<noteq> None))"
    unfolding retry_post_def by blast
  with r show ?thesis by blast
qed

lemma Retry_opens:
  assumes "a < length (heap w)" and "Retry (operation e (Some a) uri) n w = (r, w')"
  shows "opens w' \<le> opens w + Suc n \<and> (r \<noteq> Return None \<longrightarrow> opens w' = opens w + Suc n)"
  using assms
proof (induction n arbitrary: w)
  case 0
  then show ?case
    by (auto simp: operation_run split: option.splits)
next
  case (Suc n)
  from operation_post [OF Suc.prems(1), of e uri] obtain err1 w1 where
    op: "operation e (Some a) uri w = (Return err1, w1)"
    and len: "length (heap w1) = length (heap w)"
    by blast
  from op have o1: "opens w1 = Suc (opens w)"
    by (auto simp: operation_run [OF Suc.prems(1)] split: option.splits)
  show ?case
  proof (cases err1)
    case None
    with op Suc.prems(2) have "r = Return None" and "w' = w1"
      by (simp_all add: andThen_def ret_def)
    with o1 show ?thesis by simp
  next
    case (Some x)
    with op Suc.prems(2) have "Retry (operation e (Some a) uri) n w1 = (r, w')"
      by (simp add: andThen_def)
    moreover from len Suc.prems(1) have "a < length (heap w1)" by simp
    ultimately have "opens w' \<le> opens w1 + Suc n \<and>
        (r \<noteq> Return None \<longrightarrow> opens w' = opens w1 + Suc n)"
      using Suc.IH by blast
    with o1 show ?thesis by simp
  qed
qed

lemma apply_unapplied_appends:
  assumes "apply_unapplied e vs done = (err, done')"
  shows "\<exists>news. done' = done @ news \<and> set news \<subseteq> set vs - set done \<and> distinct news \<and>
           (sorted vs \<longrightarrow> sorted news) \<and> (err = None \<longrightarrow> set vs \<subseteq> set done')"
  using assms
proof (induction vs arbitrary: "done")
  case Nil
  then show ?case by simp
next
  case (Cons v vs)
  show ?case
  proof (cases "v \<in> set done")
    case True
    with Cons.prems have "apply_unapplied e vs done = (err, done')" by simp
    from Cons.IH [OF this] True show ?thesis by auto
  next
    case False
    show ?thesis
    proof (cases "script_err e v")
      case (Some x)
      with False Cons.prems have "err = Some x" and "done' = done" by simp_all
      then show ?thesis by simp
    next
      case None
      with False Cons.prems have "apply_unapplied e vs (done @ [v]) = (err, done')" by simp
      from Cons.IH [OF this] obtain news where
        n: "done' = (done @ [v]) @ news" "set news \<subseteq> set vs - set (done @ [v])" "distinct news"
           "sorted vs \<longrightarrow> sorted news" "err = None \<longrightarrow> set vs \<subseteq> set done'"
        by blast
      have "done' = done @ (v # news)" using n(1) by simp
      moreover have "set (v # news) \<subseteq> set (v # vs) - set done" using n(2) False by auto
      moreover have "distinct (v # news)" using n(2,3) by auto
      moreover have "sorted (v # vs) \<longrightarrow> sorted (v # news)" using n(2,4) by auto
      moreover have "err = None \<longrightarrow> set (v # vs) \<subseteq> set done'" using n(1,5) by auto
      ultimately show ?thesis by blast
    qed
  qed
qed

lemma apply_unapplied_noop:
  "set vs \<subseteq> set done \<Longrightarrow> apply_unapplied e vs done = (None, done)"
  by (induction vs) auto

lemma stopContainer_run:
  "stopContainer e cont_ID w =
     (if ContainerStop_err e (stops w) = None \<or> ContainerStop_err e (stops w) = Some ErrNotFound
      then (Return (),
            w\<lparr>trace := trace w @ [E_ContainerStop cont_ID (Some (5 * Second))],
              stops := Suc (stops w)\<rparr>)
      else (Goexit,
            w\<lparr>trace := trace w @ [E_ContainerStop cont_ID (Some (5 * Second)),
                                   E_Fatalf ''failed to stop mysql container: %v''],
              failed := True, stops := Suc (stops w)\<rparr>))"
  by (auto simp: stopContainer_def IsErrNotFound_def prim_defs split: option.splits)

lemma expire_run:
  "expire e cont_ID w =
     (if ContainerStop_err e (stops w) = None \<or> ContainerStop_err e (stops w) = Some ErrNotFound
      then (Return (),
            w\<lparr>trace := trace w @ [E_Sleep (expireTimeout e), E_ContainerStop cont_ID None],
              stops := Suc (stops w)\<rparr>)
      else (Goexit,
            w\<lparr>trace := trace w @ [E_Sleep (expireTimeout e), E_ContainerStop cont_ID None,
                                   E_Fatalf ''failed to expire mysql container: %v''],
              failed := True, stops := Suc (stops w)\<rparr>))"
  by (auto simp: expire_def IsErrNotFound_def prim_defs split: option.splits)


lemma exec_ret: "andThen (ret a) f w = f a w"
  by (simp add: andThen_def ret_def)

lemma exec_assoc: "andThen (andThen m g) f w = andThen m (\<lambda>a. andThen (g a) f) w"
  by (simp add: andThen_def split: prod.splits result.splits)

lemma exec_if: "andThen (if c then m else m') f w = (if c then andThen m f w else andThen m' f w)"
  by simp

lemma exec_case_option:
  "andThen (case x of None \<Rightarrow> m | Some y \<Rightarrow> g y) f w =
     (case x of None \<Rightarrow> andThen m f w | Some y \<Rightarrow> andThen (g y) f w)"
  by (simp split: option.splits)

lemma exec_panic: "andThen panic f w = (Panicked, w)"
  by (simp add: andThen_def panic_def)

lemma exec_Fatalf:
  "andThen (Fatalf format) f w = (Goexit, w\<lparr>trace := trace w @ [E_Fatalf format], failed := True\<rparr>)"
  by (simp add: andThen_def Fatalf_def FailNow_def call_def)

lemma exec_require_NoError:
  "andThen (require_NoError err msg) f w =
     (case err of
        None \<Rightarrow> f () w
      | Some x \<Rightarrow> (Goexit, w\<lparr>trace := trace w @ [E_NoError msg], failed := True\<rparr>))"
  by (simp add: andThen_def require_NoError_def FailNow_def call_def split: option.splits)

lemma exec_client_NewClientWithOpts:
  "andThen (client_NewClientWithOpts e) f w =
     f (NewClientWithOpts_err e) (w\<lparr>trace := trace w @ [E_NewClientWithOpts]\<rparr>)"
  by (simp add: andThen_def client_NewClientWithOpts_def call_def)

lemma exec_ImagePull:
  "andThen (ImagePull e refStr) f w = f (ImagePull_err e) (w\<lparr>trace := trace w @ [E_ImagePull refStr]\<rparr>)"
  by (simp add: andThen_def ImagePull_def call_def)

lemma exec_io_Copy:
  "andThen (io_Copy e) f w = f (Copy_err e) (w\<lparr>trace := trace w @ [E_Copy]\<rparr>)"
  by (simp add: andThen_def io_Copy_def call_def)

lemma exec_id_NewString:
  "andThen (id_NewString e) f w =
     (case NewString_res e of
        Inl x \<Rightarrow> f ([], Some x) (w\<lparr>trace := trace w @ [E_NewString]\<rparr>)
      | Inr s \<Rightarrow> f (s, None) (w\<lparr>trace := trace w @ [E_NewString]\<rparr>))"
  by (simp add: andThen_def id_NewString_def call_def split: sum.splits)

lemma exec_ContainerCreate:
  "andThen (ContainerCreate e config hostConfig containerName) f w =
     (case ContainerCreate_res e of
        Inl x \<Rightarrow> f ([], Some x) (w\<lparr>trace := trace w @ [E_ContainerCreate config hostConfig containerName]\<rparr>)
      | Inr i \<Rightarrow> f (i, None) (w\<lparr>trace := trace w @ [E_ContainerCreate config hostConfig containerName]\<rparr>))"
  by (simp add: andThen_def ContainerCreate_def call_def split: sum.splits)

lemma exec_ContainerStart:
  "andThen (ContainerStart e containerID) f w =
     f (ContainerStart_err e) (w\<lparr>trace := trace w @ [E_ContainerStart containerID]\<rparr>)"
  by (simp add: andThen_def ContainerStart_def call_def)

lemma exec_ContainerInspect:
  "andThen (ContainerInspect e containerID) f w =
     (case ContainerInspect_res e of
        Inl x \<Rightarrow> f (\<lparr>NetworkSettings = None\<rparr>, Some x) (w\<lparr>trace := trace w @ [E_ContainerInspect containerID]\<rparr>)
      | Inr j \<Rightarrow> f (j, None) (w\<lparr>trace := trace w @ [E_ContainerInspect containerID]\<rparr>))"
  by (simp add: andThen_def ContainerInspect_def call_def split: sum.splits)

lemma exec_stopContainer:
  "andThen (stopContainer e cont_ID) f w =
     (if ContainerStop_err e (stops w) = None \<or> ContainerStop_err e (stops w) = Some ErrNotFound
      then f () (w\<lparr>trace := trace w @ [E_ContainerStop cont_ID (Some (5 * Second))],
                   stops := Suc (stops w)\<rparr>)
      else (Goexit,
            w\<lparr>trace := trace w @ [E_ContainerStop cont_ID (Some (5 * Second)),
                                   E_Fatalf ''failed to stop mysql container: %v''],
              failed := True, stops := Suc (stops w)\<rparr>))"
  by (simp add: andThen_def stopContainer_run)

lemma exec_go_stmt:
  "andThen (go_stmt c) f w =
     f () (w\<lparr>trace := trace w @ [E_go c], goroutines := goroutines w @ [c]\<rparr>)"
  by (simp add: andThen_def go_stmt_def call_def)

lemma exec_t_Cleanup:
  "andThen (t_Cleanup c) f w =
     f () (w\<lparr>trace := trace w @ [E_Cleanup c], cleanups := cleanups w @ [c]\<rparr>)"
  by (simp add: andThen_def t_Cleanup_def call_def)

lemma exec_new:
  "andThen (new v) f w = f (Some (length (heap w))) (w\<lparr>heap := heap w @ [v]\<rparr>)"
  by (simp add: andThen_def new_def)

lemma exec_load:
  "a < length (heap w) \<Longrightarrow> andThen (load (Some a)) f w = f (heap w ! a) w"
  by (simp add: andThen_def load_def)

lemma exec_sql_Open:
  "andThen (sql_Open e driverName dataSourceName) f w =
     (case Open_err e (opens w) of
        Some x \<Rightarrow> f (None, Some x)
          (w\<lparr>trace := trace w @ [E_Open driverName dataSourceName], opens := Suc (opens w)\<rparr>)
      | None \<Rightarrow> f (Some (DB driverName dataSourceName), None)
          (w\<lparr>trace := trace w @ [E_Open driverName dataSourceName], opens := Suc (opens w)\<rparr>))"
  by (simp add: andThen_def sql_Open_def call_def split: option.splits)

lemma exec_goose_SetLogger:
  "andThen goose_SetLogger f w = f () (w\<lparr>trace := trace w @ [E_SetLogger]\<rparr>)"
  by (simp add: andThen_def goose_SetLogger_def call_def)

lemma exec_goose_SetDialect:
  "andThen (goose_SetDialect e d) f w = f (SetDialect_err e) (w\<lparr>trace := trace w @ [E_SetDialect d]\<rparr>)"
  by (simp add: andThen_def goose_SetDialect_def call_def)

lemma exec_goose_SetBaseFS:
  "andThen goose_SetBaseFS f w = f () (w\<lparr>trace := trace w @ [E_SetBaseFS]\<rparr>)"
  by (simp add: andThen_def goose_SetBaseFS_def call_def)

lemma exec_goose_Up:
  "andThen (goose_Up e (Some d) dir) f w =
     f (fst (apply_unapplied e (sort (EmbedMigrations e dir)) (applied w)))
       (w\<lparr>trace := trace w @ [E_Up d dir],
          applied := snd (apply_unapplied e (sort (EmbedMigrations e dir)) (applied w))\<rparr>)"
  by (simp add: andThen_def goose_Up_def call_def split: prod.splits)

lemma exec_Retry:
  assumes "andThen (Retry (operation e (Some a) uri) n) f w = (r, w')" and "a < length (heap w)"
  shows "\<exists>err c evs k l.
        f err (w\<lparr>heap := (heap w)[a := (heap w ! a)\<lparr>conn := c\<rparr>],
                 trace := trace w @ evs, opens := k, pings := l\<rparr>) = (r, w') \<and>
        set evs \<subseteq> {E_Open ''mysql'' uri, E_Ping (DB ''mysql'' uri)} \<and> evs \<noteq> [] \<and>
        opens w < k \<and> k \<le> opens w + Suc n \<and> pings w \<le> l \<and>
        (case err of
           None \<Rightarrow> c = Some (DB ''mysql'' uri) \<and> pings w < l \<and>
             Ping_err e (l - 1) = None \<and> last evs = E_Ping (DB ''mysql'' uri)
         | Some x \<Rightarrow> k = opens w + Suc n \<and>
             (\<forall>i. pings w \<le> i \<and> i < l \<longrightarrow> Ping_err e i \<noteq> None))"
proof -
  obtain r1 w1 where run: "Retry (operation e (Some a) uri) n w = (r1, w1)"
    by (cases "Retry (operation e (Some a) uri) n w")
  from RetryD [OF run assms(2)] obtain err c evs k l where
    facts: "r1 = Return err"
    "w1 = w\<lparr>heap := (heap w)[a := (heap w ! a)\<lparr>conn := c\<rparr>],
               trace := trace w @ evs, opens := k, pings := l\<rparr>"
    "set evs \<subseteq> {E_Open ''mysql'' uri, E_Ping (DB ''mysql'' uri)}" "evs \<noteq> []"
    "opens w < k" "pings w \<le> l"
    "(case err of
           None \<Rightarrow> c = Some (DB ''mysql'' uri) \<and> pings w < l \<and>
             Ping_err e (l - 1) = None \<and> last evs = E_Ping (DB ''mysql'' uri)
         | Some x \<Rightarrow> (\<forall>i. pings w \<le> i \<and> i < l \<longrightarrow> Ping_err e i \<noteq> None))"
    by blast
  have k: "opens w1 = k" by (subst facts(2)) simp
  from Retry_opens [OF assms(2) run] k facts(1)
  have count: "k \<le> opens w + Suc n" "err \<noteq> None \<longrightarrow> k = opens w + Suc n"
    by simp_all
  have final: "(case err of
           None \<Rightarrow> c = Some (DB ''mysql'' uri) \<and> pings w < l \<and>
             Ping_err e (l - 1) = None \<and> last evs = E_Ping (DB ''mysql'' uri)
         | Some x \<Rightarrow> k = opens w + Suc n \<and>
             (\<forall>i. pings w \<le> i \<and> i < l \<longrightarrow> Ping_err e i \<noteq> None))"
    using facts(7) count(2) by (cases err) simp_all
  from assms(1) run facts(1) have "f err w1 = (r, w')" by (simp add: andThen_def)
  then have "f err (w\<lparr>heap := (heap w)[a := (heap w ! a)\<lparr>conn := c\<rparr>],
                 trace := trace w @ evs, opens := k, pings := l\<rparr>) = (r, w')"
    unfolding facts(2) .
  then show ?thesis using facts(3-6) count(1) final by blast
qed

lemmas exec = exec_ret exec_assoc exec_if exec_case_option exec_panic exec_Fatalf
  exec_require_NoError exec_client_NewClientWithOpts exec_ImagePull exec_io_Copy
  exec_id_NewString exec_ContainerCreate exec_ContainerStart exec_ContainerInspect
  exec_stopContainer exec_go_stmt exec_t_Cleanup exec_new exec_load exec_sql_Open
  exec_goose_SetLogger exec_goose_SetDialect exec_goose_SetBaseFS exec_goose_Up


lemmas run_unfold = RunMySQLTestContainer_def NewExponentialBackOff_def mySQLImage_def

lemmas obs_defs = fatal_report_def ulid_of_def cont_ID_of_def inspected_ports_def hostPort_of_def
  dsn_def setup_calls_def migration_calls_def started_def discovered_def

lemma exec_operation:
  "a < length (heap w) \<Longrightarrow>
   andThen (operation e (Some a) uri) f w =
     (case Open_err e (opens w) of
        Some x \<Rightarrow> f (Some x)
          (w\<lparr>heap := (heap w)[a := (heap w ! a)\<lparr>conn := None\<rparr>],
             trace := trace w @ [E_Open ''mysql'' uri], opens := Suc (opens w)\<rparr>)
      | None \<Rightarrow> f (Ping_err e (pings w))
          (w\<lparr>heap := (heap w)[a := (heap w ! a)\<lparr>conn := Some (DB ''mysql'' uri)\<rparr>],
             trace := trace w @ [E_Open ''mysql'' uri, E_Ping (DB ''mysql'' uri)],
             opens := Suc (opens w), pings := Suc (pings w)\<rparr>))"
  by (simp add: andThen_def operation_run split: option.splits)

lemmas scenario_defs = env_ok_def env_noping_def env_noport_def env_badscript_def env_nopull_def
  world0_def world1_def uri_3306_def calls_c1_def Second_def Minute_def

lemma NewMySQLTestContainer_world0: "NewMySQLTestContainer world0 = (Return (Some 0), world1)"
  by (simp add: NewMySQLTestContainer_def new_def world0_def world1_def)

lemma run_ok: "RunMySQLTestContainer env_ok (Some 0) world1 = (Return (Some 1), world_ok)"
  unfolding run_unfold
  by (simp add: exec exec_operation Let_def ret_def scenario_defs world_ok_def eval_nat_numeral)

lemma run_noping: "RunMySQLTestContainer env_noping (Some 0) world1 = (Goexit, world_noping)"
  unfolding run_unfold
  by (simp add: exec exec_operation Let_def ret_def scenario_defs world_noping_def eval_nat_numeral)

lemma run_noport: "RunMySQLTestContainer env_noport (Some 0) world1 = (Goexit, world_noport)"
  unfolding run_unfold
  by (simp add: exec exec_operation Let_def ret_def scenario_defs world_noport_def eval_nat_numeral)

lemma run_nopull: "RunMySQLTestContainer env_nopull (Some 0) world1 = (Goexit, world_nopull)"
  unfolding run_unfold
  by (simp add: exec Let_def ret_def scenario_defs world_nopull_def)

lemma run_badscript: "RunMySQLTestContainer env_badscript (Some 0) world1 = (Goexit, world_badscript)"
  unfolding run_unfold
  by (simp add: exec exec_operation Let_def ret_def scenario_defs world_badscript_def eval_nat_numeral)


section \<open>Properties of every run\<close>

lemma run_success:
  "\<And>r w'. RunMySQLTestContainer e m w = (r, w') \<Longrightarrow> r = Return p \<Longrightarrow>
     discovered e \<and> SetDialect_err e = None \<and>
     p = Some (length (heap w)) \<and>
     heap w' = heap w @ [\<lparr>conn = Some (DB ''mysql'' (dsn (hostPort_of e))),
                           addr = ''localhost:'' @ hostPort_of e, creds = ''root:secret''\<rparr>] \<and>
     (\<exists>polls. trace w' = trace w @ setup_calls e @ polls @ migration_calls e \<and>
        polls \<noteq> [] \<and>
        set polls \<subseteq> {E_Open ''mysql'' (dsn (hostPort_of e)), E_Ping (DB ''mysql'' (dsn (hostPort_of e)))} \<and>
        last polls = E_Ping (DB ''mysql'' (dsn (hostPort_of e)))) \<and>
     failed w' = failed w \<and> stops w' = stops w \<and>
     cleanups w' = cleanups w @ [cleanup_func (cont_ID_of e)] \<and>
     goroutines w' = goroutines w @ [go_func (cont_ID_of e)] \<and>
     pings w < pings w' \<and> Ping_err e (pings w' - 1) = None \<and>
     opens w < opens w' \<and> Open_err e (opens w' - 1) = None \<and>
     apply_unapplied e (sort (EmbedMigrations e (MySQLMigrationDir e))) (applied w) = (None, applied w')"
  unfolding run_unfold
  apply (simp add: exec Let_def ret_def split: option.splits sum.splits if_splits)
  apply (drule exec_Retry, simp)
  apply (elim exE conjE)
  apply (simp add: exec Let_def ret_def split: option.splits sum.splits if_splits)
  apply (clarsimp simp: obs_defs prod_eq_iff)
  done

lemma run_general:
  "\<And>r w'. RunMySQLTestContainer e m w = (r, w') \<Longrightarrow>
     take (length (heap w)) (heap w') = heap w \<and>
     (if discovered e
      then cleanups w' = cleanups w @ [cleanup_func (cont_ID_of e)] \<and>
           goroutines w' = goroutines w @ [go_func (cont_ID_of e)] \<and>
           opens w < opens w' \<and> length (heap w') = Suc (length (heap w))
      else cleanups w' = cleanups w \<and> goroutines w' = goroutines w \<and>
           opens w' = opens w \<and> pings w' = pings w \<and> heap w' = heap w \<and>
           applied w' = applied w) \<and>
     (r = Return (Some (length (heap w))) \<or>
      r = Goexit \<and> failed w' \<and> trace w' \<noteq> [] \<and> fatal_report (last (trace w')) \<or>
      r = Panicked \<and> ContainerInspect_res e = Inr \<lparr>NetworkSettings = None\<rparr>)"
  unfolding run_unfold
  apply (simp add: exec Let_def ret_def split: option.splits sum.splits if_splits)
             apply (simp_all add: obs_defs)
  apply (drule exec_Retry, simp)
  apply (elim exE conjE)
  apply (simp add: exec Let_def ret_def split: option.splits sum.splits if_splits)
  done

lemma run_exhausted:
  "\<And>r w'. RunMySQLTestContainer e m w = (r, w') \<Longrightarrow> opens w < opens w' \<Longrightarrow>
     (\<forall>i. pings w \<le> i \<and> i < pings w' \<longrightarrow> Ping_err e i \<noteq> None) \<Longrightarrow>
     r = Goexit \<and> failed w' \<and> stops w' = Suc (stops w) \<and>
     opens w' = opens w + Suc (retries e \<lparr>MaxElapsedTime = 60 * Second\<rparr>) \<and>
     cleanups w' = cleanups w @ [cleanup_func (cont_ID_of e)] \<and>
     (\<exists>polls. trace w' = trace w @ setup_calls e @ polls @
        [E_ContainerStop (cont_ID_of e) (Some (5 * Second)),
         E_Fatalf (if ContainerStop_err e (stops w) = None \<or>
                      ContainerStop_err e (stops w) = Some ErrNotFound
                   then ''failed to connect to mysql container: %v''
                   else ''failed to stop mysql container: %v'')])"
  unfolding run_unfold
  apply (simp add: exec Let_def ret_def split: option.splits sum.splits if_splits)
  apply (drule exec_Retry, simp)
  apply (elim exE conjE)
  apply (simp add: exec Let_def ret_def split: option.splits sum.splits if_splits)
       apply (drule_tac x = "l - Suc 0" in spec, simp)
      apply (drule_tac x = "l - Suc 0" in spec, simp)
     apply (drule_tac x = "l - Suc 0" in spec, simp)
    apply (drule_tac x = "l - Suc 0" in spec, simp)
   apply (simp_all add: obs_defs)
  done

lemma run_undiscovered:
  "\<And>r w'. RunMySQLTestContainer e m w = (r, w') \<Longrightarrow> started e \<Longrightarrow> \<not> discovered e \<Longrightarrow>
     stops w' = stops w \<and>
     trace w' = trace w @ take 7 (setup_calls e) @
       (case ContainerInspect_res e of
          Inl x \<Rightarrow> [E_NoError []]
        | Inr j \<Rightarrow>
            (case NetworkSettings j of
               None \<Rightarrow> []
             | Some ns \<Rightarrow> [E_Fatalf ''failed to get host port mapping from mysql container''])) \<and>
     (case ContainerInspect_res e of
        Inl x \<Rightarrow> r = Goexit \<and> failed w'
      | Inr j \<Rightarrow>
          (case NetworkSettings j of
             None \<Rightarrow> r = Panicked
           | Some ns \<Rightarrow> r = Goexit \<and> failed w'))"
  unfolding run_unfold
  apply (simp add: exec Let_def ret_def split: option.splits sum.splits if_splits)
             apply (simp_all add: obs_defs)
    apply auto
  done


lemma run_exhausted_polls:
  "\<And>r w'. RunMySQLTestContainer e m w = (r, w') \<Longrightarrow> opens w < opens w' \<Longrightarrow>
     (\<forall>i. pings w \<le> i \<and> i < pings w' \<longrightarrow> Ping_err e i \<noteq> None) \<Longrightarrow>
     r = Goexit \<and> failed w' \<and> stops w' = Suc (stops w) \<and> applied w' = applied w \<and>
     (\<exists>polls.
        set polls \<subseteq> {E_Open ''mysql'' (dsn (hostPort_of e)),
                      E_Ping (DB ''mysql'' (dsn (hostPort_of e)))} \<and>
        trace w' = trace w @ setup_calls e @ polls @
        [E_ContainerStop (cont_ID_of e) (Some (5 * Second)),
         E_Fatalf (if ContainerStop_err e (stops w) = None \<or>
                      ContainerStop_err e (stops w) = Some ErrNotFound
                   then ''failed to connect to mysql container: %v''
                   else ''failed to stop mysql container: %v'')])"
  unfolding run_unfold
  apply (simp add: exec Let_def ret_def split: option.splits sum.splits if_splits)
  apply (drule exec_Retry, simp)
  apply (elim exE conjE)
  apply (simp add: exec Let_def ret_def split: option.splits sum.splits if_splits)
       apply (drule_tac x = "l - Suc 0" in spec, simp)
      apply (drule_tac x = "l - Suc 0" in spec, simp)
     apply (drule_tac x = "l - Suc 0" in spec, simp)
    apply (drule_tac x = "l - Suc 0" in spec, simp)
   apply (simp_all add: obs_defs)
  done

lemma run_early_failures:
  "\<And>r w'. RunMySQLTestContainer e m w = (r, w') \<Longrightarrow>
     (NewClientWithOpts_err e \<noteq> None \<longrightarrow>
        r = Goexit \<and> failed w' \<and>
        trace w' = trace w @ take 1 (setup_calls e) @ [E_NoError []]) \<and>
     (NewClientWithOpts_err e = None \<and> ImagePull_err e \<noteq> None \<longrightarrow>
        r = Goexit \<and> failed w' \<and>
        trace w' = trace w @ take 2 (setup_calls e) @ [E_NoError []]) \<and>
     (NewClientWithOpts_err e = None \<and> ImagePull_err e = None \<and> Copy_err e \<noteq> None \<longrightarrow>
        r = Goexit \<and> failed w' \<and>
        trace w' = trace w @ take 3 (setup_calls e) @ [E_NoError []]) \<and>
     (pulled e \<and> NewString_res e \<noteq> Inr (ulid_of e) \<longrightarrow>
        r = Goexit \<and> failed w' \<and>
        trace w' = trace w @ take 4 (setup_calls e) @ [E_NoError []]) \<and>
     (pulled e \<and> NewString_res e = Inr (ulid_of e) \<and>
      ContainerCreate_res e \<noteq> Inr (cont_ID_of e) \<longrightarrow>
        r = Goexit \<and> failed w' \<and>
        trace w' = trace w @ take 5 (setup_calls e) @
          [E_NoError ''failed to create mysql docker container'']) \<and>
     (created e \<and> ContainerStart_err e \<noteq> None \<longrightarrow>
        r = Goexit \<and> failed w' \<and> stops w' = Suc (stops w) \<and>
        trace w' = trace w @ take 6 (setup_calls e) @
          [E_ContainerStop (cont_ID_of e) (Some (5 * Second)),
           E_Fatalf (if ContainerStop_err e (stops w) = None \<or>
                        ContainerStop_err e (stops w) = Some ErrNotFound
                     then ''failed to start mysql container: %v''
                     else ''failed to stop mysql container: %v'')]) \<and>
     (\<not> discovered e \<longrightarrow> r = Panicked \<longrightarrow> started e)"
  unfolding run_unfold
  apply (simp add: exec Let_def ret_def split: option.splits sum.splits if_splits)
             apply (simp_all add: obs_defs pulled_def created_def)
  done

lemma run_late_failures:
  "\<And>r w'. RunMySQLTestContainer e m w = (r, w') \<Longrightarrow> discovered e \<Longrightarrow>
     pings w < pings w' \<Longrightarrow> Ping_err e (pings w' - 1) = None \<Longrightarrow>
     (\<exists>polls.
        set polls \<subseteq> {E_Open ''mysql'' (dsn (hostPort_of e)),
                      E_Ping (DB ''mysql'' (dsn (hostPort_of e)))} \<and>
        polls \<noteq> [] \<and> last polls = E_Ping (DB ''mysql'' (dsn (hostPort_of e))) \<and>
        (Open_err e (opens w' - 1) \<noteq> None \<longrightarrow>
           r = Goexit \<and> failed w' \<and> applied w' = applied w \<and>
           trace w' = trace w @ setup_calls e @ polls @ take 1 (migration_calls e) @
             [E_NoError []]) \<and>
        (Open_err e (opens w' - 1) = None \<and> SetDialect_err e \<noteq> None \<longrightarrow>
           r = Goexit \<and> failed w' \<and> applied w' = applied w \<and>
           trace w' = trace w @ setup_calls e @ polls @ take 3 (migration_calls e) @
             [E_NoError []]) \<and>
        (Open_err e (opens w' - 1) = None \<and> SetDialect_err e = None \<and>
         fst (apply_unapplied e (sort (EmbedMigrations e (MySQLMigrationDir e))) (applied w))
           \<noteq> None \<longrightarrow>
           r = Goexit \<and> failed w' \<and>
           applied w' =
             snd (apply_unapplied e (sort (EmbedMigrations e (MySQLMigrationDir e))) (applied w)) \<and>
           trace w' = trace w @ setup_calls e @ polls @ migration_calls e @ [E_NoError []]))"
  unfolding run_unfold
  apply (simp add: exec Let_def ret_def split: option.splits sum.splits if_splits)
             apply (simp_all add: obs_defs)
  apply (drule exec_Retry, simp)
  apply (elim exE conjE)
  apply (simp add: exec Let_def ret_def split: option.splits sum.splits if_splits)
    apply (rule_tac x = evs in exI, simp)
   apply (drule_tac x = "l - Suc 0" in spec, simp)
  apply (drule_tac x = "l - Suc 0" in spec, simp)
  done

lemma apply_unapplied_news:
  assumes "apply_unapplied e (sort vs) done = (None, done')"
  shows "\<exists>news. done' = done @ news \<and> sorted news \<and> distinct news \<and>
           set news = set vs - set done"
proof -
  from apply_unapplied_appends [OF assms] obtain news where
    n: "done' = done @ news" "set news \<subseteq> set (sort vs) - set done" "distinct news"
       "sorted (sort vs) \<longrightarrow> sorted news" "None = None \<longrightarrow> set (sort vs) \<subseteq> set done'"
    by blast
  have "set news = set vs - set done" using n(1,2,5) by auto
  with n show ?thesis by auto
qed

lemma GetConnectionURI_run:
  "a < length (heap w) \<Longrightarrow>
   GetConnectionURI (Some a) w =
     (Return (creds (heap w ! a) @ ''@tcp('' @ addr (heap w ! a) @ '')/defaultdb?parseTime=true''), w)"
  by (simp add: GetConnectionURI_def andThen_def load_def ret_def)

section \<open>The claims\<close>

text \<open>
  C1. If the bounded back-off loop gives up without a successful ping, the container is
  stopped and the test fails at once. The loop is the only place that pings, and the
  first to open a handle, so "the loop ran and gave up" is: the run opened a handle, and
  no ping of the run was answered nil. Then the loop made one attempt more than the
  retries its policy, with \<^verbatim>\<open>MaxElapsedTime\<close> of 60 seconds, granted; the run ends in
  \<open>Goexit\<close> with the test marked failed, and its last two log entries are the stop
  request for the created container, with the 5 second timeout, and the fatal report (of
  the connection failure, or of the stop itself when the daemon refuses it); exactly one
  stop request was made, and the registered cleanup will request the stop once more when
  the test ends.
\<close>

theorem retry_exhausted_stops_container_and_fails:
  assumes "RunMySQLTestContainer e m w = (r, w')"
    and "opens w < opens w'"
    and "\<forall>i. pings w \<le> i \<and> i < pings w' \<longrightarrow> Ping_err e i \<noteq> None"
  shows "r = Goexit \<and> failed w' \<and> stops w' = Suc (stops w) \<and>
         opens w' = opens w + Suc (retries e \<lparr>MaxElapsedTime = 60 * Second\<rparr>) \<and>
         cleanups w' = cleanups w @ [cleanup_func (cont_ID_of e)] \<and>
         (\<exists>polls. trace w' = trace w @ setup_calls e @ polls @
            [E_ContainerStop (cont_ID_of e) (Some (5 * Second)),
             E_Fatalf (if ContainerStop_err e (stops w) = None \<or>
                          ContainerStop_err e (stops w) = Some ErrNotFound
                       then ''failed to connect to mysql container: %v''
                       else ''failed to stop mysql container: %v'')])"
  using run_exhausted [OF assms] .

theorem retry_exhausted_witness:
  "RunMySQLTestContainer env_noping (Some 0) world1 = (Goexit, world_noping) \<and>
   opens world1 < opens world_noping \<and> failed world_noping \<and>
   stops world_noping = Suc (stops world1) \<and>
   retries env_noping \<lparr>MaxElapsedTime = 60 * Second\<rparr> = 3 \<and>
   opens world_noping = opens world1 + 4 \<and>
   last (trace world_noping) = E_Fatalf ''failed to connect to mysql container: %v'' \<and>
   last (butlast (trace world_noping)) = E_ContainerStop ''c1'' (Some (5 * Second))"
proof -
  have h2: "opens world1 < opens world_noping"
    by (simp add: world1_def world0_def world_noping_def)
  have h3: "\<forall>i. pings world1 \<le> i \<and> i < pings world_noping \<longrightarrow> Ping_err env_noping i \<noteq> None"
    by (simp add: env_noping_def)
  have n: "retries env_noping \<lparr>MaxElapsedTime = 60 * Second\<rparr> = 3"
    by (simp add: env_noping_def env_ok_def)
  from retry_exhausted_stops_container_and_fails [OF run_noping h2 h3]
  have a: "failed world_noping \<and> stops world_noping = Suc (stops world1) \<and>
           opens world_noping =
             opens world1 + Suc (retries env_noping \<lparr>MaxElapsedTime = 60 * Second\<rparr>)"
    by blast
  have b: "last (trace world_noping) = E_Fatalf ''failed to connect to mysql container: %v'' \<and>
           last (butlast (trace world_noping)) = E_ContainerStop ''c1'' (Some (5 * Second))"
    by (simp add: world_noping_def calls_c1_def Second_def)
  from a b h2 n run_noping show ?thesis by simp
qed

text \<open>
  C2. For an instance that \<open>RunMySQLTestContainer\<close> returned, \<open>GetConnectionURI\<close> returns
  \<^verbatim>\<open>root:secret@tcp(localhost:<hostPort>)/defaultdb?parseTime=true\<close>; \<open>hostPort\<close> is the
  host port of the first binding the inspection reported. It is the data source name of the
  stored connection handle and of every \<^verbatim>\<open>sql.Open\<close> of the run. The call leaves the
  world as it was, so calling it again gives the same string. The string is built from the
  stored \<open>creds\<close> and \<open>addr\<close> and from nothing else: were the returned instance
  overwritten with any handle \<open>c\<close>, address \<open>a\<close> and credentials \<open>k\<close>, the getter would
  answer \<^verbatim>\<open>k@tcp(a)/defaultdb?parseTime=true\<close>, whatever \<open>c\<close> is; and so it does for
  any instance \<open>s\<close> at any address of any store, while on the nil pointer it panics.
\<close>

theorem GetConnectionURI_of_provisioned_instance:
  assumes "RunMySQLTestContainer e m w = (Return p, w')"
  shows "GetConnectionURI p w' =
           (Return (''root:secret@tcp(localhost:'' @ hostPort_of e @ '')/defaultdb?parseTime=true''), w') \<and>
         (\<exists>a. p = Some a \<and> a < length (heap w') \<and>
            creds (heap w' ! a) = ''root:secret'' \<and>
            addr (heap w' ! a) = ''localhost:'' @ hostPort_of e \<and>
            conn (heap w' ! a) =
              Some (DB ''mysql''
                (''root:secret@tcp(localhost:'' @ hostPort_of e @ '')/defaultdb?parseTime=true''))) \<and>
         (\<forall>driverName dataSourceName.
            E_Open driverName dataSourceName \<in> set (drop (length (trace w)) (trace w')) \<longrightarrow>
            driverName = ''mysql'' \<and>
            dataSourceName =
              ''root:secret@tcp(localhost:'' @ hostPort_of e @ '')/defaultdb?parseTime=true'') \<and>
         andThen (GetConnectionURI p) (\<lambda>u. andThen (GetConnectionURI p) (\<lambda>v. ret (u = v))) w' =
           (Return True, w') \<and>
         GetConnectionURI p
           (w'\<lparr>heap := (heap w')[length (heap w) := \<lparr>conn = c, addr = a, creds = k\<rparr>]\<rparr>) =
           (Return (k @ ''@tcp('' @ a @ '')/defaultdb?parseTime=true''),
            w'\<lparr>heap := (heap w')[length (heap w) := \<lparr>conn = c, addr = a, creds = k\<rparr>]\<rparr>) \<and>
         GetConnectionURI (Some (length hp)) (v\<lparr>heap := hp @ s # rest\<rparr>) =
           (Return (creds s @ ''@tcp('' @ addr s @ '')/defaultdb?parseTime=true''),
            v\<lparr>heap := hp @ s # rest\<rparr>) \<and>
         GetConnectionURI None v = (Panicked, v)"
proof -
  from run_success [OF assms refl] obtain polls where
    p: "p = Some (length (heap w))"
    and h: "heap w' = heap w @ [\<lparr>conn = Some (DB ''mysql'' (dsn (hostPort_of e))),
                           addr = ''localhost:'' @ hostPort_of e, creds = ''root:secret''\<rparr>]"
    and t: "trace w' = trace w @ setup_calls e @ polls @ migration_calls e"
    and s: "set polls \<subseteq> {E_Open ''mysql'' (dsn (hostPort_of e)), E_Ping (DB ''mysql'' (dsn (hostPort_of e)))}"
    by blast
  have len: "length (heap w) < length (heap w')" using h by simp
  have uri: "GetConnectionURI p w' = (Return (dsn (hostPort_of e)), w')"
    unfolding p GetConnectionURI_run [OF len] by (simp add: h dsn_def)
  have opens: "\<forall>driverName dataSourceName.
            E_Open driverName dataSourceName \<in> set (drop (length (trace w)) (trace w')) \<longrightarrow>
            driverName = ''mysql'' \<and> dataSourceName = dsn (hostPort_of e)"
    using s by (auto simp: t setup_calls_def migration_calls_def)
  have twice: "andThen (GetConnectionURI p) (\<lambda>u. andThen (GetConnectionURI p) (\<lambda>v. ret (u = v))) w' =
           (Return True, w')"
    by (simp add: andThen_def uri ret_def)
  have old: "GetConnectionURI p w' =
           (Return (''root:secret@tcp(localhost:'' @ hostPort_of e @ '')/defaultdb?parseTime=true''), w') \<and>
         (\<exists>a. p = Some a \<and> a < length (heap w') \<and>
            creds (heap w' ! a) = ''root:secret'' \<and>
            addr (heap w' ! a) = ''localhost:'' @ hostPort_of e \<and>
            conn (heap w' ! a) =
              Some (DB ''mysql''
                (''root:secret@tcp(localhost:'' @ hostPort_of e @ '')/defaultdb?parseTime=true''))) \<and>
         (\<forall>driverName dataSourceName.
            E_Open driverName dataSourceName \<in> set (drop (length (trace w)) (trace w')) \<longrightarrow>
            driverName = ''mysql'' \<and>
            dataSourceName =
              ''root:secret@tcp(localhost:'' @ hostPort_of e @ '')/defaultdb?parseTime=true'') \<and>
         andThen (GetConnectionURI p) (\<lambda>u. andThen (GetConnectionURI p) (\<lambda>v. ret (u = v))) w' =
           (Return True, w')"
    using uri opens twice len unfolding p by (simp add: h dsn_def)
  have over: "GetConnectionURI p
           (w'\<lparr>heap := (heap w')[length (heap w) := \<lparr>conn = c, addr = a, creds = k\<rparr>]\<rparr>) =
           (Return (k @ ''@tcp('' @ a @ '')/defaultdb?parseTime=true''),
            w'\<lparr>heap := (heap w')[length (heap w) := \<lparr>conn = c, addr = a, creds = k\<rparr>]\<rparr>)"
    unfolding p using len by (simp add: GetConnectionURI_run)
  have any: "GetConnectionURI (Some (length hp)) (v\<lparr>heap := hp @ s # rest\<rparr>) =
           (Return (creds s @ ''@tcp('' @ addr s @ '')/defaultdb?parseTime=true''),
            v\<lparr>heap := hp @ s # rest\<rparr>)"
    by (simp add: GetConnectionURI_run)
  have nil: "GetConnectionURI None v = (Panicked, v)"
    by (simp add: GetConnectionURI_def load_def andThen_def panic_def)
  from old over any nil show ?thesis by blast
qed

theorem GetConnectionURI_witness:
  "RunMySQLTestContainer env_ok (Some 0) world1 = (Return (Some 1), world_ok) \<and>
   GetConnectionURI (Some 1) world_ok =
     (Return ''root:secret@tcp(localhost:3306)/defaultdb?parseTime=true'', world_ok) \<and>
   conn (heap world_ok ! 1) =
     Some (DB ''mysql'' ''root:secret@tcp(localhost:3306)/defaultdb?parseTime=true'') \<and>
   fst (GetConnectionURI (Some 1)
          (world_ok\<lparr>heap := (heap world_ok)
             [1 := \<lparr>conn = Some (DB ''mysql'' ''other''), addr = ''h:1'', creds = ''u:p''\<rparr>]\<rparr>)) =
     Return ''u:p@tcp(h:1)/defaultdb?parseTime=true''"
proof -
  have hp: "hostPort_of env_ok = ''3306''"
    by (simp add: hostPort_of_def inspected_ports_def env_ok_def)
  have l: "length (heap world1) = 1"
    by (simp add: world1_def world0_def)
  note this_run = GetConnectionURI_of_provisioned_instance [OF run_ok,
      of "Some (DB ''mysql'' ''other'')" "''h:1''" "''u:p''"]
  from this_run have a: "GetConnectionURI (Some 1) world_ok =
      (Return (''root:secret@tcp(localhost:'' @ hostPort_of env_ok @ '')/defaultdb?parseTime=true''),
       world_ok)"
    by blast
  from this_run have b: "\<exists>a. Some 1 = Some a \<and> a < length (heap world_ok) \<and>
            creds (heap world_ok ! a) = ''root:secret'' \<and>
            addr (heap world_ok ! a) = ''localhost:'' @ hostPort_of env_ok \<and>
            conn (heap world_ok ! a) =
              Some (DB ''mysql''
                (''root:secret@tcp(localhost:'' @ hostPort_of env_ok @ '')/defaultdb?parseTime=true''))"
    by blast
  from this_run have c: "GetConnectionURI (Some 1)
           (world_ok\<lparr>heap := (heap world_ok)[length (heap world1) :=
              \<lparr>conn = Some (DB ''mysql'' ''other''), addr = ''h:1'', creds = ''u:p''\<rparr>]\<rparr>) =
           (Return (''u:p'' @ ''@tcp('' @ ''h:1'' @ '')/defaultdb?parseTime=true''),
            world_ok\<lparr>heap := (heap world_ok)[length (heap world1) :=
              \<lparr>conn = Some (DB ''mysql'' ''other''), addr = ''h:1'', creds = ''u:p''\<rparr>]\<rparr>)"
    by blast
  from a b c run_ok show ?thesis
    by (simp add: hp l)
qed

text \<open>
  C3. Teardown is idempotent. When the daemon answers the stop request with "not found"
  (the container is already gone), \<open>stopContainer\<close> returns normally: nothing is reported
  and the test is not marked failed. So a teardown whose request succeeds or finds the
  container gone, followed by a second teardown that finds it gone, leaves the test as it
  was; only the two stop requests are logged.
\<close>

theorem stopContainer_idempotent:
  assumes "ContainerStop_err e (stops w) = None \<or> ContainerStop_err e (stops w) = Some ErrNotFound"
    and "ContainerStop_err e (Suc (stops w)) = Some ErrNotFound"
  shows "andThen (stopContainer e cont_ID) (\<lambda>_. stopContainer e cont_ID) w =
           (Return (),
            w\<lparr>trace := trace w @ [E_ContainerStop cont_ID (Some (5 * Second)),
                                   E_ContainerStop cont_ID (Some (5 * Second))],
              stops := Suc (Suc (stops w))\<rparr>) \<and>
         stopContainer e cont_ID
           (w\<lparr>trace := trace w @ [E_ContainerStop cont_ID (Some (5 * Second))],
              stops := Suc (stops w)\<rparr>) =
           (Return (),
            w\<lparr>trace := trace w @ [E_ContainerStop cont_ID (Some (5 * Second)),
                                   E_ContainerStop cont_ID (Some (5 * Second))],
              stops := Suc (Suc (stops w))\<rparr>)"
  using assms by (auto simp: andThen_def stopContainer_run)

theorem stopContainer_idempotent_witness:
  "ContainerStop_err env_ok (stops world0) = None \<and>
   ContainerStop_err env_ok (Suc (stops world0)) = Some ErrNotFound \<and>
   andThen (stopContainer env_ok ''c1'') (\<lambda>_. stopContainer env_ok ''c1'') world0 =
     (Return (),
      world0\<lparr>trace := [E_ContainerStop ''c1'' (Some 5000000000),
                       E_ContainerStop ''c1'' (Some 5000000000)],
             stops := 2\<rparr>)"
proof -
  have h1: "ContainerStop_err env_ok (stops world0) = None \<or>
            ContainerStop_err env_ok (stops world0) = Some ErrNotFound"
    by (simp add: env_ok_def world0_def)
  have h2: "ContainerStop_err env_ok (Suc (stops world0)) = Some ErrNotFound"
    by (simp add: env_ok_def world0_def)
  from stopContainer_idempotent [OF h1 h2, of "''c1''"] h2
  show ?thesis
    by (simp add: env_ok_def world0_def Second_def)
qed


text \<open>
  C4 (as stated). The claim says that no instance exists that is only partially ready:
  every instance holds a connection handle, an address and credentials. The constructor
  contradicts it: the instance \<open>NewMySQLTestContainer\<close> returns has a nil handle and empty
  address and credentials, and \<open>GetConnectionURI\<close> on it shows the empty fields.
\<close>

theorem NewMySQLTestContainer_not_initialized:
  "NewMySQLTestContainer world0 = (Return (Some 0), world1) \<and>
   heap world1 ! 0 = \<lparr>conn = None, addr = [], creds = []\<rparr> \<and>
   \<not> fully_initialized (heap world1 ! 0) \<and>
   GetConnectionURI (Some 0) world1 = (Return ''@tcp()/defaultdb?parseTime=true'', world1)"
proof -
  have "heap world1 ! 0 = \<lparr>conn = None, addr = [], creds = []\<rparr>"
    by (simp add: world1_def)
  moreover have "GetConnectionURI (Some 0) world1 = (Return ''@tcp()/defaultdb?parseTime=true'', world1)"
    by (simp add: GetConnectionURI_run world1_def)
  ultimately show ?thesis
    by (simp add: NewMySQLTestContainer_world0 fully_initialized_def)
qed

text \<open>
  C4 (amended). Every instance that \<open>RunMySQLTestContainer\<close> returns is fully
  initialised: its handle is not nil and was opened on the data source name of the
  instance, the last ping of the run, on that handle, was answered nil, the address is
  \<^verbatim>\<open>localhost:<hostPort>\<close> and the credentials are \<^verbatim>\<open>root:secret\<close>. A run that fails
  returns no instance. The instance the constructor returns is empty.
\<close>

theorem returned_instance_fully_initialized:
  assumes "RunMySQLTestContainer e m w = (Return p, w')"
  shows "p = Some (length (heap w)) \<and> length (heap w) < length (heap w') \<and>
         fully_initialized (heap w' ! length (heap w)) \<and>
         heap w' ! length (heap w) =
           \<lparr>conn = Some (DB ''mysql''
              (''root:secret@tcp(localhost:'' @ hostPort_of e @ '')/defaultdb?parseTime=true'')),
            addr = ''localhost:'' @ hostPort_of e,
            creds = ''root:secret''\<rparr> \<and>
         pings w < pings w' \<and> Ping_err e (pings w' - 1) = None \<and>
         NewMySQLTestContainer v =
           (Return (Some (length (heap v))),
            v\<lparr>heap := heap v @ [\<lparr>conn = None, addr = [], creds = []\<rparr>]\<rparr>)"
  using run_success [OF assms refl]
  by (simp add: fully_initialized_def dsn_def NewMySQLTestContainer_def new_def)

theorem returned_instance_witness:
  "RunMySQLTestContainer env_ok (Some 0) world1 = (Return (Some 1), world_ok) \<and>
   fully_initialized (heap world_ok ! 1) \<and>
   Ping_err env_ok (pings world_ok - 1) = None"
proof -
  from returned_instance_fully_initialized [OF run_ok]
  have "fully_initialized (heap world_ok ! length (heap world1)) \<and>
        Ping_err env_ok (pings world_ok - 1) = None"
    by blast
  then show ?thesis using run_ok by (simp add: world1_def world0_def)
qed

text \<open>
  C5 (as stated). The claim lists, with the environment, the port binding and auto-remove,
  a 5-second graceful-stop timeout among the settings the container is created with. The
  source sets no stop timeout in the configuration it creates the container with. In the
  run of the example the one \<^verbatim>\<open>ContainerCreate\<close> call carries no stop timeout, and
  the expiry goroutine of that run requests the stop with a nil timeout, so that there the
  created container is stopped with no 5-second timeout at all.
\<close>

theorem container_created_without_stop_timeout:
  "RunMySQLTestContainer env_ok (Some 0) world1 = (Return (Some 1), world_ok) \<and>
   \<not> created_with_stop_timeout (trace world_ok) 5 \<and>
   trace world_ok ! 4 =
     E_ContainerCreate
       \<lparr>Env = [''MYSQL_DATABASE=defaultdb'', ''MYSQL_ROOT_PASSWORD=secret''],
        ExposedPorts = {''3306/tcp''},
        Image_cfg = ''mysql:latest'',
        StopTimeout = None\<rparr>
       \<lparr>AutoRemove = True,
        PublishAllPorts = False,
        PortBindings = [''3306/tcp'' \<mapsto> [\<lparr>HostIP = [], HostPort = ''3306''\<rparr>]]\<rparr>
       ''mysql-01H'' \<and>
   goroutines world_ok = [go_func ''c1''] \<and>
   run env_ok (go_func ''c1'') world_ok =
     (Return (),
      world_ok\<lparr>trace := trace world_ok @ [E_Sleep (10 * Minute), E_ContainerStop ''c1'' None],
               stops := 1\<rparr>)"
proof -
  have a: "\<not> created_with_stop_timeout (trace world_ok) 5"
    by (simp add: created_with_stop_timeout_def world_ok_def calls_c1_def)
  have b: "trace world_ok ! 4 =
     E_ContainerCreate
       \<lparr>Env = [''MYSQL_DATABASE=defaultdb'', ''MYSQL_ROOT_PASSWORD=secret''],
        ExposedPorts = {''3306/tcp''},
        Image_cfg = ''mysql:latest'',
        StopTimeout = None\<rparr>
       \<lparr>AutoRemove = True,
        PublishAllPorts = False,
        PortBindings = [''3306/tcp'' \<mapsto> [\<lparr>HostIP = [], HostPort = ''3306''\<rparr>]]\<rparr>
       ''mysql-01H''"
    by (simp add: world_ok_def calls_c1_def)
  have c: "goroutines world_ok = [go_func ''c1'']" "stops world_ok = 0"
    "ContainerStop_err env_ok 0 = None" "expireTimeout env_ok = 10 * Minute"
    by (simp_all add: world_ok_def env_ok_def)
  have d: "run env_ok (go_func ''c1'') world_ok =
     (Return (),
      world_ok\<lparr>trace := trace world_ok @ [E_Sleep (10 * Minute), E_ContainerStop ''c1'' None],
               stops := 1\<rparr>)"
    by (simp add: expire_run c)
  from a b c(1) d run_ok show ?thesis by simp
qed

text \<open>
  C5 (amended). A run that returns has made its calls in this order: create the client,
  pull the image and read the pull output to its end, draw the name, create the container
  with the environment \<^verbatim>\<open>MYSQL_DATABASE=defaultdb\<close>, \<^verbatim>\<open>MYSQL_ROOT_PASSWORD=secret\<close>,
  the binding of \<^verbatim>\<open>3306/tcp\<close> to host port 3306 and auto-remove, and with no stop timeout
  of its own, start it, inspect it, start the expiry goroutine, register the cleanup, poll
  with \<^verbatim>\<open>sql.Open\<close> and \<^verbatim>\<open>Ping\<close> until a ping is answered nil, open the handle for
  the migrations, set the logger, the dialect and the base file system, run the migrations;
  then it returns the new instance. No \<^verbatim>\<open>ContainerCreate\<close> call of the run carries a
  stop timeout, of 5 seconds or any other. The 5-second graceful-stop timeout belongs to
  the teardown: the cleanup the run has registered, whenever it is run, makes
  \<^verbatim>\<open>ContainerStop\<close> on the created container with a timeout of 5 seconds its first call,
  while the goroutine the run has started sleeps and then requests the stop with a nil
  timeout.
\<close>

theorem provisioning_steps_in_order:
  assumes "RunMySQLTestContainer e m w = (Return p, w')"
  shows "(\<exists>polls.
            trace w' = trace w @
              [E_NewClientWithOpts, E_ImagePull ''mysql:latest'', E_Copy, E_NewString,
               E_ContainerCreate
                 \<lparr>Env = [''MYSQL_DATABASE=defaultdb'', ''MYSQL_ROOT_PASSWORD=secret''],
                  ExposedPorts = {''3306/tcp''},
                  Image_cfg = ''mysql:latest'',
                  StopTimeout = None\<rparr>
                 \<lparr>AutoRemove = True,
                  PublishAllPorts = False,
                  PortBindings = [''3306/tcp'' \<mapsto> [\<lparr>HostIP = [], HostPort = ''3306''\<rparr>]]\<rparr>
                 (''mysql-'' @ ulid_of e),
               E_ContainerStart (cont_ID_of e),
               E_ContainerInspect (cont_ID_of e),
               E_go (go_func (cont_ID_of e)),
               E_Cleanup (cleanup_func (cont_ID_of e))] @
              polls @
              [E_Open ''mysql'' (dsn (hostPort_of e)), E_SetLogger, E_SetDialect ''mysql'',
               E_SetBaseFS, E_Up (DB ''mysql'' (dsn (hostPort_of e))) (MySQLMigrationDir e)] \<and>
            polls \<noteq> [] \<and>
            set polls \<subseteq> {E_Open ''mysql'' (dsn (hostPort_of e)),
                          E_Ping (DB ''mysql'' (dsn (hostPort_of e)))} \<and>
            last polls = E_Ping (DB ''mysql'' (dsn (hostPort_of e)))) \<and>
         p = Some (length (heap w)) \<and>
         heap w' = heap w @ [\<lparr>conn = Some (DB ''mysql'' (dsn (hostPort_of e))),
                               addr = ''localhost:'' @ hostPort_of e,
                               creds = ''root:secret''\<rparr>] \<and>
         cleanups w' = cleanups w @ [cleanup_func (cont_ID_of e)] \<and>
         goroutines w' = goroutines w @ [go_func (cont_ID_of e)] \<and>
         \<not> created_with_stop_timeout (drop (length (trace w)) (trace w')) secs \<and>
         take 1 (drop (length (trace v)) (trace (snd (run e (last (cleanups w')) v)))) =
           [E_ContainerStop (cont_ID_of e) (Some (5 * Second))] \<and>
         take 2 (drop (length (trace v)) (trace (snd (run e (last (goroutines w')) v)))) =
           [E_Sleep (expireTimeout e), E_ContainerStop (cont_ID_of e) None]"
proof -
  note s = run_success [OF assms refl]
  from s obtain polls where
    t: "trace w' = trace w @ setup_calls e @ polls @ migration_calls e"
    and ne: "polls \<noteq> []"
    and sub: "set polls \<subseteq> {E_Open ''mysql'' (dsn (hostPort_of e)),
                           E_Ping (DB ''mysql'' (dsn (hostPort_of e)))}"
    and l: "last polls = E_Ping (DB ''mysql'' (dsn (hostPort_of e)))"
    by blast
  have steps: "\<exists>polls.
            trace w' = trace w @
              [E_NewClientWithOpts, E_ImagePull ''mysql:latest'', E_Copy, E_NewString,
               E_ContainerCreate
                 \<lparr>Env = [''MYSQL_DATABASE=defaultdb'', ''MYSQL_ROOT_PASSWORD=secret''],
                  ExposedPorts = {''3306/tcp''},
                  Image_cfg = ''mysql:latest'',
                  StopTimeout = None\<rparr>
                 \<lparr>AutoRemove = True,
                  PublishAllPorts = False,
                  PortBindings = [''3306/tcp'' \<mapsto> [\<lparr>HostIP = [], HostPort = ''3306''\<rparr>]]\<rparr>
                 (''mysql-'' @ ulid_of e),
               E_ContainerStart (cont_ID_of e),
               E_ContainerInspect (cont_ID_of e),
               E_go (go_func (cont_ID_of e)),
               E_Cleanup (cleanup_func (cont_ID_of e))] @
              polls @
              [E_Open ''mysql'' (dsn (hostPort_of e)), E_SetLogger, E_SetDialect ''mysql'',
               E_SetBaseFS, E_Up (DB ''mysql'' (dsn (hostPort_of e))) (MySQLMigrationDir e)] \<and>
            polls \<noteq> [] \<and>
            set polls \<subseteq> {E_Open ''mysql'' (dsn (hostPort_of e)),
                          E_Ping (DB ''mysql'' (dsn (hostPort_of e)))} \<and>
            last polls = E_Ping (DB ''mysql'' (dsn (hostPort_of e)))"
    using t ne sub l by (simp add: setup_calls_def migration_calls_def)
  have inst: "p = Some (length (heap w))"
    "heap w' = heap w @ [\<lparr>conn = Some (DB ''mysql'' (dsn (hostPort_of e))),
                               addr = ''localhost:'' @ hostPort_of e,
                               creds = ''root:secret''\<rparr>]"
    "cleanups w' = cleanups w @ [cleanup_func (cont_ID_of e)]"
    "goroutines w' = goroutines w @ [go_func (cont_ID_of e)]"
    using s by simp_all
  have nopoll: "\<not> list_ex
       (\<lambda>ev. case ev of
          E_ContainerCreate config hostConfig containerName \<Rightarrow> StopTimeout config = Some secs
        | _ \<Rightarrow> False) polls"
    using sub by (auto simp: list_ex_iff)
  have notimeout: "\<not> created_with_stop_timeout (drop (length (trace w)) (trace w')) secs"
    using nopoll
    by (simp add: created_with_stop_timeout_def t setup_calls_def migration_calls_def)
  have stop: "take 1 (drop (length (trace v)) (trace (snd (run e (last (cleanups w')) v)))) =
           [E_ContainerStop (cont_ID_of e) (Some (5 * Second))]"
    by (simp add: inst(3) stopContainer_run)
  have exp: "take 2 (drop (length (trace v)) (trace (snd (run e (last (goroutines w')) v)))) =
           [E_Sleep (expireTimeout e), E_ContainerStop (cont_ID_of e) None]"
    by (simp add: inst(4) expire_run)
  from steps inst notimeout stop exp show ?thesis by blast
qed

theorem provisioning_steps_witness:
  "RunMySQLTestContainer env_ok (Some 0) world1 = (Return (Some 1), world_ok) \<and>
   cleanups world_ok = cleanups world1 @ [cleanup_func ''c1''] \<and>
   trace world_ok =
     [E_NewClientWithOpts, E_ImagePull ''mysql:latest'', E_Copy, E_NewString,
      E_ContainerCreate
        \<lparr>Env = [''MYSQL_DATABASE=defaultdb'', ''MYSQL_ROOT_PASSWORD=secret''],
         ExposedPorts = {''3306/tcp''},
         Image_cfg = ''mysql:latest'',
         StopTimeout = None\<rparr>
        \<lparr>AutoRemove = True,
         PublishAllPorts = False,
         PortBindings = [''3306/tcp'' \<mapsto> [\<lparr>HostIP = [], HostPort = ''3306''\<rparr>]]\<rparr>
        ''mysql-01H'',
      E_ContainerStart ''c1'', E_ContainerInspect ''c1'',
      E_go (go_func ''c1''), E_Cleanup (cleanup_func ''c1''),
      E_Open ''mysql'' uri_3306, E_Ping (DB ''mysql'' uri_3306),
      E_Open ''mysql'' uri_3306, E_Ping (DB ''mysql'' uri_3306),
      E_Open ''mysql'' uri_3306, E_Ping (DB ''mysql'' uri_3306),
      E_Open ''mysql'' uri_3306, E_SetLogger, E_SetDialect ''mysql'', E_SetBaseFS,
      E_Up (DB ''mysql'' uri_3306) ''migrations/mysql''] \<and>
   take 1 (drop (length (trace world_ok))
     (trace (snd (run env_ok (last (cleanups world_ok)) world_ok)))) =
     [E_ContainerStop ''c1'' (Some 5000000000)] \<and>
   take 2 (drop (length (trace world_ok))
     (trace (snd (run env_ok (last (goroutines world_ok)) world_ok)))) =
     [E_Sleep 600000000000, E_ContainerStop ''c1'' None]"
proof -
  have c: "cont_ID_of env_ok = ''c1''"
    by (simp add: cont_ID_of_def env_ok_def)
  have x: "expireTimeout env_ok = 600000000000"
    by (simp add: env_ok_def Minute_def Second_def)
  note this_run = provisioning_steps_in_order [OF run_ok, where v = world_ok]
  from this_run
  have a: "cleanups world_ok = cleanups world1 @ [cleanup_func (cont_ID_of env_ok)]"
    by blast
  from this_run
  have b: "take 1 (drop (length (trace world_ok))
     (trace (snd (run env_ok (last (cleanups world_ok)) world_ok)))) =
     [E_ContainerStop (cont_ID_of env_ok) (Some (5 * Second))]"
    by blast
  from this_run
  have d: "take 2 (drop (length (trace world_ok))
     (trace (snd (run env_ok (last (goroutines world_ok)) world_ok)))) =
     [E_Sleep (expireTimeout env_ok), E_ContainerStop (cont_ID_of env_ok) None]"
    by blast
  have t: "trace world_ok =
     [E_NewClientWithOpts, E_ImagePull ''mysql:latest'', E_Copy, E_NewString,
      E_ContainerCreate
        \<lparr>Env = [''MYSQL_DATABASE=defaultdb'', ''MYSQL_ROOT_PASSWORD=secret''],
         ExposedPorts = {''3306/tcp''},
         Image_cfg = ''mysql:latest'',
         StopTimeout = None\<rparr>
        \<lparr>AutoRemove = True,
         PublishAllPorts = False,
         PortBindings = [''3306/tcp'' \<mapsto> [\<lparr>HostIP = [], HostPort = ''3306''\<rparr>]]\<rparr>
        ''mysql-01H'',
      E_ContainerStart ''c1'', E_ContainerInspect ''c1'',
      E_go (go_func ''c1''), E_Cleanup (cleanup_func ''c1''),
      E_Open ''mysql'' uri_3306, E_Ping (DB ''mysql'' uri_3306),
      E_Open ''mysql'' uri_3306, E_Ping (DB ''mysql'' uri_3306),
      E_Open ''mysql'' uri_3306, E_Ping (DB ''mysql'' uri_3306),
      E_Open ''mysql'' uri_3306, E_SetLogger, E_SetDialect ''mysql'', E_SetBaseFS,
      E_Up (DB ''mysql'' uri_3306) ''migrations/mysql'']"
    by (simp add: world_ok_def calls_c1_def)
  have b': "take 1 (drop (length (trace world_ok))
     (trace (snd (run env_ok (last (cleanups world_ok)) world_ok)))) =
     [E_ContainerStop ''c1'' (Some 5000000000)]"
    unfolding b by (simp add: c Second_def)
  have d': "take 2 (drop (length (trace world_ok))
     (trace (snd (run env_ok (last (goroutines world_ok)) world_ok)))) =
     [E_Sleep 600000000000, E_ContainerStop ''c1'' None]"
    unfolding d by (simp add: c x)
  from a have a': "cleanups world_ok = cleanups world1 @ [cleanup_func ''c1'']"
    by (simp add: c)
  from run_ok a' t b' d' show ?thesis by (intro conjI)
qed


text \<open>
  C6. No setup failure is swallowed. Every run ends in one of three ways. It returns the
  new instance, and then no step failed: the image pull, the creation and the start of the
  container answered without error, the inspection reported a non-empty binding of
  \<^verbatim>\<open>3306/tcp\<close>, the last ping of the connection loop was answered nil, every
  migration script ran, and the instance is fully initialised. Or it ends in \<open>Goexit\<close>
  with the test marked failed, and the fatal report is the last entry of the log: nothing
  ran after it. Or it panics, which happens only when the container was started and the
  inspection result has no network settings, and then the inspection is the last call.

  The abort is immediate: for each class of failure the log of the run is the calls up to
  the one that failed and then the fatal report, with nothing between them but the stop of
  the container where the source stops it first (a failed start, a connection loop that
  gave up). So a failed client or pull ends the run before the pull output is read or a
  container created, a failed creation before the start, a failed start before the
  inspection, a failed inspection or an absent or empty binding of \<^verbatim>\<open>3306/tcp\<close> before
  the goroutine, the cleanup and the first \<^verbatim>\<open>sql.Open\<close>, a connection loop that gave up
  before the migrations, and a failed migration is the last call before the report.
\<close>

theorem setup_failures_are_fatal:
  assumes "RunMySQLTestContainer e m w = (r, w')"
  shows "(r = Return (Some (length (heap w))) \<and>
           NewClientWithOpts_err e = None \<and> ImagePull_err e = None \<and> Copy_err e = None \<and>
           NewString_res e = Inr (ulid_of e) \<and>
           ContainerCreate_res e = Inr (cont_ID_of e) \<and>
           ContainerStart_err e = None \<and>
           (\<exists>p. inspected_ports e = Some p \<and> p \<noteq> []) \<and>
           pings w < pings w' \<and> Ping_err e (pings w' - 1) = None \<and>
           Open_err e (opens w' - 1) = None \<and> SetDialect_err e = None \<and>
           fst (apply_unapplied e (sort (EmbedMigrations e (MySQLMigrationDir e))) (applied w)) = None \<and>
           fully_initialized (heap w' ! length (heap w)) \<or>
         r = Goexit \<and> failed w' \<and> trace w' \<noteq> [] \<and> fatal_report (last (trace w')) \<or>
         r = Panicked \<and> started e \<and> ContainerInspect_res e = Inr \<lparr>NetworkSettings = None\<rparr> \<and>
           trace w' = trace w @ take 7 (setup_calls e)) \<and>
         (NewClientWithOpts_err e \<noteq> None \<longrightarrow>
            r = Goexit \<and> failed w' \<and>
            trace w' = trace w @ [E_NewClientWithOpts, E_NoError []]) \<and>
         (NewClientWithOpts_err e = None \<and> ImagePull_err e \<noteq> None \<longrightarrow>
            r = Goexit \<and> failed w' \<and>
            trace w' = trace w @
              [E_NewClientWithOpts, E_ImagePull ''mysql:latest'', E_NoError []]) \<and>
         (NewClientWithOpts_err e = None \<and> ImagePull_err e = None \<and> Copy_err e \<noteq> None \<longrightarrow>
            r = Goexit \<and> failed w' \<and>
            trace w' = trace w @
              [E_NewClientWithOpts, E_ImagePull ''mysql:latest'', E_Copy, E_NoError []]) \<and>
         (pulled e \<and> NewString_res e \<noteq> Inr (ulid_of e) \<longrightarrow>
            r = Goexit \<and> failed w' \<and>
            trace w' = trace w @ take 4 (setup_calls e) @ [E_NoError []]) \<and>
         (pulled e \<and> NewString_res e = Inr (ulid_of e) \<and>
          ContainerCreate_res e \<noteq> Inr (cont_ID_of e) \<longrightarrow>
            r = Goexit \<and> failed w' \<and>
            trace w' = trace w @ take 5 (setup_calls e) @
              [E_NoError ''failed to create mysql docker container'']) \<and>
         (created e \<and> ContainerStart_err e \<noteq> None \<longrightarrow>
            r = Goexit \<and> failed w' \<and> stops w' = Suc (stops w) \<and>
            trace w' = trace w @ take 6 (setup_calls e) @
              [E_ContainerStop (cont_ID_of e) (Some (5 * Second)),
               E_Fatalf (if ContainerStop_err e (stops w) = None \<or>
                            ContainerStop_err e (stops w) = Some ErrNotFound
                         then ''failed to start mysql container: %v''
                         else ''failed to stop mysql container: %v'')]) \<and>
         (started e \<and> ContainerInspect_res e = Inl x \<longrightarrow>
            r = Goexit \<and> failed w' \<and> stops w' = stops w \<and>
            trace w' = trace w @ take 7 (setup_calls e) @ [E_NoError []]) \<and>
         (started e \<and> ContainerInspect_res e = Inr \<lparr>NetworkSettings = Some ns\<rparr> \<and>
          (Ports ns ''3306/tcp'' = None \<or> Ports ns ''3306/tcp'' = Some []) \<longrightarrow>
            r = Goexit \<and> failed w' \<and> stops w' = stops w \<and>
            trace w' = trace w @ take 7 (setup_calls e) @
              [E_Fatalf ''failed to get host port mapping from mysql container'']) \<and>
         (discovered e \<and> (\<forall>i. pings w \<le> i \<and> i < pings w' \<longrightarrow> Ping_err e i \<noteq> None) \<longrightarrow>
            r = Goexit \<and> failed w' \<and> stops w' = Suc (stops w) \<and> applied w' = applied w \<and>
            (\<exists>polls.
               set polls \<subseteq> {E_Open ''mysql'' (dsn (hostPort_of e)),
                             E_Ping (DB ''mysql'' (dsn (hostPort_of e)))} \<and>
               trace w' = trace w @ setup_calls e @ polls @
                 [E_ContainerStop (cont_ID_of e) (Some (5 * Second)),
                  E_Fatalf (if ContainerStop_err e (stops w) = None \<or>
                               ContainerStop_err e (stops w) = Some ErrNotFound
                            then ''failed to connect to mysql container: %v''
                            else ''failed to stop mysql container: %v'')])) \<and>
         (discovered e \<and> pings w < pings w' \<and> Ping_err e (pings w' - 1) = None \<longrightarrow>
            (\<exists>polls.
               set polls \<subseteq> {E_Open ''mysql'' (dsn (hostPort_of e)),
                             E_Ping (DB ''mysql'' (dsn (hostPort_of e)))} \<and>
               polls \<noteq> [] \<and> last polls = E_Ping (DB ''mysql'' (dsn (hostPort_of e))) \<and>
               (Open_err e (opens w' - 1) \<noteq> None \<longrightarrow>
                  r = Goexit \<and> failed w' \<and> applied w' = applied w \<and>
                  trace w' = trace w @ setup_calls e @ polls @ take 1 (migration_calls e) @
                    [E_NoError []]) \<and>
               (Open_err e (opens w' - 1) = None \<and> SetDialect_err e \<noteq> None \<longrightarrow>
                  r = Goexit \<and> failed w' \<and> applied w' = applied w \<and>
                  trace w' = trace w @ setup_calls e @ polls @ take 3 (migration_calls e) @
                    [E_NoError []]) \<and>
               (Open_err e (opens w' - 1) = None \<and> SetDialect_err e = None \<and>
                fst (apply_unapplied e (sort (EmbedMigrations e (MySQLMigrationDir e))) (applied w))
                  \<noteq> None \<longrightarrow>
                  r = Goexit \<and> failed w' \<and>
                  applied w' =
                    snd (apply_unapplied e (sort (EmbedMigrations e (MySQLMigrationDir e))) (applied w)) \<and>
                  trace w' = trace w @ setup_calls e @ polls @ migration_calls e @
                    [E_NoError []])))"
proof -
  note early = run_early_failures [OF assms]
  note gen = run_general [OF assms]
  note und = run_undiscovered [OF assms]
  have tri: "r = Return (Some (length (heap w))) \<and>
           NewClientWithOpts_err e = None \<and> ImagePull_err e = None \<and> Copy_err e = None \<and>
           NewString_res e = Inr (ulid_of e) \<and>
           ContainerCreate_res e = Inr (cont_ID_of e) \<and>
           ContainerStart_err e = None \<and>
           (\<exists>p. inspected_ports e = Some p \<and> p \<noteq> []) \<and>
           pings w < pings w' \<and> Ping_err e (pings w' - 1) = None \<and>
           Open_err e (opens w' - 1) = None \<and> SetDialect_err e = None \<and>
           fst (apply_unapplied e (sort (EmbedMigrations e (MySQLMigrationDir e))) (applied w)) = None \<and>
           fully_initialized (heap w' ! length (heap w)) \<or>
         r = Goexit \<and> failed w' \<and> trace w' \<noteq> [] \<and> fatal_report (last (trace w')) \<or>
         r = Panicked \<and> started e \<and> ContainerInspect_res e = Inr \<lparr>NetworkSettings = None\<rparr> \<and>
           trace w' = trace w @ take 7 (setup_calls e)"
  proof (cases "r = Return (Some (length (heap w)))")
    case True
    from run_success [OF assms True] show ?thesis
      by (auto simp: True discovered_def started_def fully_initialized_def split: option.splits)
  next
    case False
    show ?thesis
    proof (cases "r = Panicked")
      case True
      with gen have nil: "ContainerInspect_res e = Inr \<lparr>NetworkSettings = None\<rparr>" by simp
      then have nd: "\<not> discovered e" by (simp add: discovered_def inspected_ports_def)
      with early True have st: "started e" by blast
      from und [OF st nd] nil have "trace w' = trace w @ take 7 (setup_calls e)" by simp
      with True st nil show ?thesis by simp
    next
      case no: False
      with False gen show ?thesis by blast
    qed
  qed
  have ports: "started e \<and> ContainerInspect_res e = Inr \<lparr>NetworkSettings = Some ns\<rparr> \<and>
          (Ports ns ''3306/tcp'' = None \<or> Ports ns ''3306/tcp'' = Some []) \<longrightarrow>
            r = Goexit \<and> failed w' \<and> stops w' = stops w \<and>
            trace w' = trace w @ take 7 (setup_calls e) @
              [E_Fatalf ''failed to get host port mapping from mysql container'']"
  proof (intro impI, elim conjE)
    assume st: "started e" and i: "ContainerInspect_res e = Inr \<lparr>NetworkSettings = Some ns\<rparr>"
      and p: "Ports ns ''3306/tcp'' = None \<or> Ports ns ''3306/tcp'' = Some []"
    from i p have nd: "\<not> discovered e" by (auto simp: discovered_def inspected_ports_def)
    from und [OF st nd] i show "r = Goexit \<and> failed w' \<and> stops w' = stops w \<and>
            trace w' = trace w @ take 7 (setup_calls e) @
              [E_Fatalf ''failed to get host port mapping from mysql container'']"
      by simp
  qed
  have insp: "started e \<and> ContainerInspect_res e = Inl x \<longrightarrow>
            r = Goexit \<and> failed w' \<and> stops w' = stops w \<and>
            trace w' = trace w @ take 7 (setup_calls e) @ [E_NoError []]"
  proof (intro impI, elim conjE)
    assume st: "started e" and i: "ContainerInspect_res e = Inl x"
    from i have nd: "\<not> discovered e" by (simp add: discovered_def inspected_ports_def)
    from und [OF st nd] i show "r = Goexit \<and> failed w' \<and> stops w' = stops w \<and>
            trace w' = trace w @ take 7 (setup_calls e) @ [E_NoError []]"
      by simp
  qed
  have retry: "discovered e \<and> (\<forall>i. pings w \<le> i \<and> i < pings w' \<longrightarrow> Ping_err e i \<noteq> None) \<longrightarrow>
            r = Goexit \<and> failed w' \<and> stops w' = Suc (stops w) \<and> applied w' = applied w \<and>
            (\<exists>polls.
               set polls \<subseteq> {E_Open ''mysql'' (dsn (hostPort_of e)),
                             E_Ping (DB ''mysql'' (dsn (hostPort_of e)))} \<and>
               trace w' = trace w @ setup_calls e @ polls @
                 [E_ContainerStop (cont_ID_of e) (Some (5 * Second)),
                  E_Fatalf (if ContainerStop_err e (stops w) = None \<or>
                               ContainerStop_err e (stops w) = Some ErrNotFound
                            then ''failed to connect to mysql container: %v''
                            else ''failed to stop mysql container: %v'')])"
  proof (intro impI, elim conjE)
    assume d: "discovered e"
      and a: "\<forall>i. pings w \<le> i \<and> i < pings w' \<longrightarrow> Ping_err e i \<noteq> None"
    from gen d have o: "opens w < opens w'" by simp
    from run_exhausted_polls [OF assms o a]
    show "r = Goexit \<and> failed w' \<and> stops w' = Suc (stops w) \<and> applied w' = applied w \<and>
            (\<exists>polls.
               set polls \<subseteq> {E_Open ''mysql'' (dsn (hostPort_of e)),
                             E_Ping (DB ''mysql'' (dsn (hostPort_of e)))} \<and>
               trace w' = trace w @ setup_calls e @ polls @
                 [E_ContainerStop (cont_ID_of e) (Some (5 * Second)),
                  E_Fatalf (if ContainerStop_err e (stops w) = None \<or>
                               ContainerStop_err e (stops w) = Some ErrNotFound
                            then ''failed to connect to mysql container: %v''
                            else ''failed to stop mysql container: %v'')])" .
  qed
  note late = run_late_failures [OF assms]
  show ?thesis
    apply (intro conjI)
    subgoal by (rule tri)
    subgoal using early by (simp add: setup_calls_def)
    subgoal using early by (simp add: setup_calls_def)
    subgoal using early by (simp add: setup_calls_def)
    subgoal using early by blast
    subgoal using early by blast
    subgoal using early by blast
    subgoal by (rule insp)
    subgoal by (rule ports)
    subgoal by (rule retry)
    subgoal using late by blast
    done
qed

theorem setup_failures_witness:
  "RunMySQLTestContainer env_badscript (Some 0) world1 = (Goexit, world_badscript) \<and>
   fst (apply_unapplied env_badscript
          (sort (EmbedMigrations env_badscript (MySQLMigrationDir env_badscript)))
          (applied world1)) = Some ErrOther \<and>
   failed world_badscript \<and> last (trace world_badscript) = E_NoError [] \<and>
   RunMySQLTestContainer env_nopull (Some 0) world1 = (Goexit, world_nopull) \<and>
   ImagePull_err env_nopull = Some ErrOther \<and>
   failed world_nopull \<and>
   trace world_nopull = [E_NewClientWithOpts, E_ImagePull ''mysql:latest'', E_NoError []]"
proof -
  from conjunct1 [OF setup_failures_are_fatal [OF run_badscript]]
  have a: "failed world_badscript" by blast
  have b: "fst (apply_unapplied env_badscript
          (sort (EmbedMigrations env_badscript (MySQLMigrationDir env_badscript)))
          (applied world1)) = Some ErrOther"
    by (simp add: scenario_defs)
  have c: "last (trace world_badscript) = E_NoError []"
    by (simp add: world_badscript_def)
  have h: "NewClientWithOpts_err env_nopull = None \<and> ImagePull_err env_nopull \<noteq> None"
    "ImagePull_err env_nopull = Some ErrOther" "trace world1 = []"
    by (simp_all add: scenario_defs world1_def world0_def)
  note pull = setup_failures_are_fatal [OF run_nopull, THEN conjunct2, THEN conjunct2,
      THEN conjunct1]
  from pull h(1) have d: "failed world_nopull"
    "trace world_nopull = trace world1 @
              [E_NewClientWithOpts, E_ImagePull ''mysql:latest'', E_NoError []]"
    by blast+
  from d(2) have d2: "trace world_nopull =
      [E_NewClientWithOpts, E_ImagePull ''mysql:latest'', E_NoError []]"
    by (simp add: h(3))
  from run_badscript b a c run_nopull h(2) d(1) d2 show ?thesis by (intro conjI)
qed

text \<open>
  C7. Once port discovery has succeeded, the run has started the expiry goroutine for the
  created container, whatever happens later in the run. Run in any world \<open>v\<close> (so also
  one whose cleanups never ran), the goroutine sleeps for \<open>expireTimeout\<close> and then asks
  the daemon to stop the container, with no timeout of its own; an answer of nil or "not
  found" ends it normally, any other error is reported with \<^verbatim>\<open>t.Fatalf\<close>.
\<close>

theorem watchdog_stops_container:
  assumes "RunMySQLTestContainer e m w = (r, w')" and "discovered e"
  shows "goroutines w' = goroutines w @ [go_func (cont_ID_of e)] \<and>
         run e (go_func (cont_ID_of e)) v =
           (if ContainerStop_err e (stops v) = None \<or>
               ContainerStop_err e (stops v) = Some ErrNotFound
            then (Return (),
                  v\<lparr>trace := trace v @ [E_Sleep (expireTimeout e),
                                         E_ContainerStop (cont_ID_of e) None],
                    stops := Suc (stops v)\<rparr>)
            else (Goexit,
                  v\<lparr>trace := trace v @ [E_Sleep (expireTimeout e),
                                         E_ContainerStop (cont_ID_of e) None,
                                         E_Fatalf ''failed to expire mysql container: %v''],
                    failed := True, stops := Suc (stops v)\<rparr>))"
  using run_general [OF assms(1)] assms(2) by (simp add: expire_run)

theorem watchdog_witness:
  "RunMySQLTestContainer env_noping (Some 0) world1 = (Goexit, world_noping) \<and>
   discovered env_noping \<and>
   goroutines world_noping = [go_func ''c1''] \<and>
   cleanups world_noping = [cleanup_func ''c1''] \<and>
   run env_noping (go_func ''c1'') world_noping =
     (Return (),
      world_noping\<lparr>trace := trace world_noping @
                       [E_Sleep (10 * Minute), E_ContainerStop ''c1'' None],
                    stops := 2\<rparr>)"
proof -
  have d: "discovered env_noping"
    by (simp add: obs_defs scenario_defs)
  have c: "cont_ID_of env_noping = ''c1''"
    by (simp add: cont_ID_of_def scenario_defs)
  have s: "ContainerStop_err env_noping (Suc 0) = Some ErrNotFound"
    "expireTimeout env_noping = 10 * Minute" "stops world_noping = Suc 0"
    "cleanups world_noping = [cleanup_func ''c1'']" "goroutines world1 = []"
    by (simp_all add: env_noping_def env_ok_def world_noping_def world1_def world0_def)
  from watchdog_stops_container [OF run_noping d, of world_noping]
  show ?thesis using run_noping d by (simp add: c s)
qed


text \<open>
  C8. A run that returns has applied the embedded migrations of \<open>MySQLMigrationDir\<close> to
  the database it connected to: the versions recorded as applied grow by exactly the
  versions of the directory that were not yet recorded, each once, in ascending order;
  the call that does it is the last of the run and goes to a handle opened on the
  instance's data source name. Applying the same directory again, through any handle,
  returns nil and changes nothing but the call log.
\<close>

theorem migrations_applied_in_order_and_idempotent:
  assumes "RunMySQLTestContainer e m w = (Return p, w')"
  shows "(\<exists>news. applied w' = applied w @ news \<and> sorted news \<and> distinct news \<and>
            set news = set (EmbedMigrations e (MySQLMigrationDir e)) - set (applied w)) \<and>
         last (trace w') = E_Up (DB ''mysql'' (dsn (hostPort_of e))) (MySQLMigrationDir e) \<and>
         goose_Up e (Some d) (MySQLMigrationDir e) w' =
           (Return None, w'\<lparr>trace := trace w' @ [E_Up d (MySQLMigrationDir e)]\<rparr>)"
proof -
  from run_success [OF assms refl] obtain polls where
    up: "apply_unapplied e (sort (EmbedMigrations e (MySQLMigrationDir e))) (applied w) =
           (None, applied w')"
    and t: "trace w' = trace w @ setup_calls e @ polls @ migration_calls e"
    by blast
  from apply_unapplied_news [OF up] obtain news where
    n: "applied w' = applied w @ news" "sorted news" "distinct news"
       "set news = set (EmbedMigrations e (MySQLMigrationDir e)) - set (applied w)"
    by blast
  have "set (sort (EmbedMigrations e (MySQLMigrationDir e))) \<subseteq> set (applied w')"
    using n(1,4) by auto
  from apply_unapplied_noop [OF this, of e]
  have again: "goose_Up e (Some d) (MySQLMigrationDir e) w' =
           (Return None, w'\<lparr>trace := trace w' @ [E_Up d (MySQLMigrationDir e)]\<rparr>)"
    by (simp add: goose_Up_def call_def)
  have "last (trace w') = E_Up (DB ''mysql'' (dsn (hostPort_of e))) (MySQLMigrationDir e)"
    by (simp add: t migration_calls_def)
  with n again show ?thesis by blast
qed

theorem migrations_witness:
  "RunMySQLTestContainer env_ok (Some 0) world1 = (Return (Some 1), world_ok) \<and>
   EmbedMigrations env_ok (MySQLMigrationDir env_ok) = [2, 1] \<and>
   applied world1 = [] \<and> applied world_ok = [1, 2] \<and>
   goose_Up env_ok (Some (DB ''mysql'' uri_3306)) (MySQLMigrationDir env_ok) world_ok =
     (Return None,
      world_ok\<lparr>trace := trace world_ok @
                  [E_Up (DB ''mysql'' uri_3306) (MySQLMigrationDir env_ok)]\<rparr>)"
proof -
  from migrations_applied_in_order_and_idempotent [OF run_ok, of "DB ''mysql'' uri_3306"]
  have "goose_Up env_ok (Some (DB ''mysql'' uri_3306)) (MySQLMigrationDir env_ok) world_ok =
     (Return None,
      world_ok\<lparr>trace := trace world_ok @
                  [E_Up (DB ''mysql'' uri_3306) (MySQLMigrationDir env_ok)]\<rparr>)"
    by blast
  then show ?thesis
    using run_ok by (simp add: env_ok_def world_ok_def world1_def world0_def)
qed

text \<open>
  C9. \<open>RunMySQLTestContainer\<close> does not touch its receiver. Every instance that existed
  before the call is unchanged after it, whatever the outcome, the receiver among them;
  the instance the call returns is a new one, not the receiver; and \<open>GetConnectionURI\<close>
  on the receiver answers after the call what it answered before.
\<close>

theorem receiver_not_mutated:
  assumes "RunMySQLTestContainer e m w = (r, w')"
    and "m = Some a" and "a < length (heap w)"
  shows "take (length (heap w)) (heap w') = heap w \<and>
         heap w' ! a = heap w ! a \<and>
         r \<noteq> Return m \<and>
         fst (GetConnectionURI m w') = fst (GetConnectionURI m w)"
proof -
  from run_general [OF assms(1)] have
    frame: "take (length (heap w)) (heap w') = heap w"
    and res: "r = Return (Some (length (heap w))) \<or> r = Goexit \<or> r = Panicked"
    by blast+
  have "length (take (length (heap w)) (heap w')) = length (heap w)"
    by (simp only: frame)
  then have len: "length (heap w) \<le> length (heap w')"
    by simp
  from frame assms(3) have same: "heap w' ! a = heap w ! a"
    by (metis nth_take)
  from len assms(3) have a': "a < length (heap w')" by simp
  have "r \<noteq> Return m" using res assms(2,3) by auto
  moreover have "fst (GetConnectionURI m w') = fst (GetConnectionURI m w)"
    unfolding assms(2) GetConnectionURI_run [OF a'] GetConnectionURI_run [OF assms(3)]
    by (simp add: same)
  ultimately show ?thesis using frame same by simp
qed

theorem receiver_not_mutated_witness:
  "NewMySQLTestContainer world0 = (Return (Some 0), world1) \<and>
   RunMySQLTestContainer env_ok (Some 0) world1 = (Return (Some 1), world_ok) \<and>
   heap world_ok ! 0 = \<lparr>conn = None, addr = [], creds = []\<rparr> \<and>
   fst (GetConnectionURI (Some 0) world_ok) = Return ''@tcp()/defaultdb?parseTime=true''"
proof -
  have h: "(0::nat) < length (heap world1)" by (simp add: world1_def)
  have u: "fst (GetConnectionURI (Some 0) world1) = Return ''@tcp()/defaultdb?parseTime=true''"
    by (simp add: GetConnectionURI_run world1_def)
  from receiver_not_mutated [OF run_ok refl h]
  have "heap world_ok ! 0 = heap world1 ! 0 \<and>
        fst (GetConnectionURI (Some 0) world_ok) = fst (GetConnectionURI (Some 0) world1)"
    by blast
  then show ?thesis
    using run_ok NewMySQLTestContainer_world0 u by (simp add: world1_def)
qed

text \<open>
  C10. When the container has been started and port discovery then fails (the inspection
  returns an error, or its network settings are nil, or they have no binding of
  \<^verbatim>\<open>3306/tcp\<close> or an empty one), the run ends without a stop request: no
  \<^verbatim>\<open>ContainerStop\<close> call is made, no cleanup is registered and no goroutine is started,
  because both come after the check of the port mapping. The log of the run ends with the
  inspection, followed by the fatal report; with nil network settings the run panics
  instead.
\<close>

theorem no_stop_when_port_discovery_fails:
  assumes "RunMySQLTestContainer e m w = (r, w')"
    and "started e" and "\<not> discovered e"
  shows "stops w' = stops w \<and> cleanups w' = cleanups w \<and> goroutines w' = goroutines w \<and>
         trace w' = trace w @ take 7 (setup_calls e) @
           (case ContainerInspect_res e of
              Inl x \<Rightarrow> [E_NoError []]
            | Inr j \<Rightarrow>
                (case NetworkSettings j of
                   None \<Rightarrow> []
                 | Some ns \<Rightarrow> [E_Fatalf ''failed to get host port mapping from mysql container''])) \<and>
         (case ContainerInspect_res e of
            Inl x \<Rightarrow> r = Goexit \<and> failed w'
          | Inr j \<Rightarrow>
              (case NetworkSettings j of
                 None \<Rightarrow> r = Panicked
               | Some ns \<Rightarrow> r = Goexit \<and> failed w'))"
  using run_undiscovered [OF assms] run_general [OF assms(1)] assms(3) by simp

theorem no_stop_witness:
  "RunMySQLTestContainer env_noport (Some 0) world1 = (Goexit, world_noport) \<and>
   started env_noport \<and> \<not> discovered env_noport \<and>
   stops world_noport = stops world1 \<and> cleanups world_noport = [] \<and>
   goroutines world_noport = [] \<and>
   trace world_noport =
     [E_NewClientWithOpts, E_ImagePull ''mysql:latest'', E_Copy, E_NewString,
      E_ContainerCreate
        \<lparr>Env = [''MYSQL_DATABASE=defaultdb'', ''MYSQL_ROOT_PASSWORD=secret''],
         ExposedPorts = {''3306/tcp''},
         Image_cfg = ''mysql:latest'',
         StopTimeout = None\<rparr>
        \<lparr>AutoRemove = True,
         PublishAllPorts = False,
         PortBindings = [''3306/tcp'' \<mapsto> [\<lparr>HostIP = [], HostPort = ''3306''\<rparr>]]\<rparr>
        ''mysql-01H'',
      E_ContainerStart ''c1'', E_ContainerInspect ''c1'',
      E_Fatalf ''failed to get host port mapping from mysql container'']"
proof -
  have s: "started env_noport" and d: "\<not> discovered env_noport"
    by (simp_all add: obs_defs scenario_defs)
  from no_stop_when_port_discovery_fails [OF run_noport s d]
  have "stops world_noport = stops world1" by blast
  then show ?thesis
    using run_noport s d by (simp add: world_noport_def calls_c1_def)
qed

end
